theory Spec2Isabelle
  imports Complex_Main
begin

section \<open>Values, arrays and errors\<close>

text \<open>
  A Python float is modelled by the value it denotes: a real number, one of the two
  infinities, or NaN.  \<open>Finite r\<close> stands for the floating-point number nearest to
  \<open>r\<close>; rounding is not modelled.  The comparisons are the IEEE ones of Python:
  every comparison with NaN is false.
\<close>

datatype pyfloat = Finite real | PosInf | NegInf | NaN

fun float_lt :: "pyfloat \<Rightarrow> pyfloat \<Rightarrow> bool" where
  "float_lt NaN _ = False"
| "float_lt _ NaN = False"
| "float_lt (Finite a) (Finite b) = (a < b)"
| "float_lt (Finite _) PosInf = True"
| "float_lt (Finite _) NegInf = False"
| "float_lt PosInf _ = False"
| "float_lt NegInf NegInf = False"
| "float_lt NegInf _ = True"

definition float_gt :: "pyfloat \<Rightarrow> pyfloat \<Rightarrow> bool" where
  "float_gt a b = float_lt b a"

text \<open>
  The exceptions the modelled code raises.  An \<open>assert\<close> that fails raises
  AssertionError with the assertion's message (empty when it has none).
\<close>

datatype error =
    AssertionError string
  | ValueError string
  | TypeError string
  | AttributeError string
  | IndexError string
  | KeyError string
  | ExternalError string

text \<open>
  A numpy array: its shape and its elements in row-major order.  \<open>len(a.shape)\<close> is
  \<open>length (shape a)\<close>.  An array is well formed when it holds as many elements as its
  shape says.
\<close>

datatype 'a ndarray = NDArray (shape: "nat list") (flat: "'a list")

definition well_formed :: "'a ndarray \<Rightarrow> bool" where
  "well_formed a = (length (flat a) = prod_list (shape a))"

text \<open>A one-dimensional array holding the given elements.\<close>

definition array1 :: "'a list \<Rightarrow> 'a ndarray" where
  "array1 xs = NDArray [length xs] xs"

section \<open>PearsonCalculator\<close>

text \<open>
  The two running sequences \<open>self.y_hat\<close> and \<open>self.y\<close>.  They start as empty
  lists and are one-dimensional arrays after the first call; both are modelled as lists.
\<close>

record pearson_calculator =
  self_y_hat :: "pyfloat list"
  self_y :: "pyfloat list"

definition PearsonCalculator_init :: pearson_calculator where
  "PearsonCalculator_init = \<lparr>self_y_hat = [], self_y = []\<rparr>"

text \<open>
  \<open>__call__\<close>: two assertions on the number of dimensions, then both arrays are
  concatenated to the running sequences.  The result pairs what the call returns (an
  error, or nothing) with the state it leaves.  A failed assertion raises before any
  assignment.  \<open>np.concatenate\<close> of one-dimensional arrays appends their elements.
\<close>

definition PearsonCalculator_call ::
  "pearson_calculator \<Rightarrow> pyfloat ndarray \<Rightarrow> pyfloat ndarray \<Rightarrow> (error + unit) \<times> pearson_calculator"
where
  "PearsonCalculator_call s y_hat y =
     (if length (shape y_hat) \<noteq> 1 then (Inl (AssertionError []), s)
      else if length (shape y) \<noteq> 1 then (Inl (AssertionError []), s)
      else (Inr (), s\<lparr>self_y_hat := self_y_hat s @ flat y_hat, self_y := self_y s @ flat y\<rparr>))"

text \<open>
  Log records written through the \<open>logging\<close> module.
\<close>

datatype log_level = INFO | WARNING

type_synonym log_record = "log_level \<times> string"

definition not_enough_samples :: log_record where
  "not_enough_samples = (WARNING, ''Pearson does not have enough samples, returning nan'')"

text \<open>
  \<open>calculate_pearson\<close>.  \<open>scipy.stats.pearsonr\<close> is a parameter: it takes the two
  sequences and either raises or returns the coefficient (the first component of
  scipy's result).  When it raises, the exception leaves the method before the two
  sequences are cleared.  The result is what the call returns, the state it leaves and
  the log records it writes.
\<close>

type_synonym pearsonr_fn = "pyfloat list \<Rightarrow> pyfloat list \<Rightarrow> error + pyfloat"

definition calculate_pearson ::
  "pearsonr_fn \<Rightarrow> pearson_calculator \<Rightarrow> (error + pyfloat) \<times> pearson_calculator \<times> log_record list"
where
  "calculate_pearson pearsonr s =
     (if length (self_y s) < 2
      then (Inr NaN, s\<lparr>self_y_hat := [], self_y := []\<rparr>, [not_enough_samples])
      else (case pearsonr (self_y s) (self_y_hat s) of
              Inl e \<Rightarrow> (Inl e, s, [])
            | Inr r \<Rightarrow> (Inr r, s\<lparr>self_y_hat := [], self_y := []\<rparr>, [])))"

text \<open>
  A run of \<open>__call__\<close>s on successive batches: the first exception ends it.
\<close>

fun observe_all ::
  "pearson_calculator \<Rightarrow> (pyfloat ndarray \<times> pyfloat ndarray) list \<Rightarrow> error + pearson_calculator"
where
  "observe_all s [] = Inr s"
| "observe_all s ((y_hat, y) # rest) =
     (case PearsonCalculator_call s y_hat y of
        (Inl e, _) \<Rightarrow> Inl e
      | (Inr _, s') \<Rightarrow> observe_all s' rest)"

text \<open>
  Any sequence of operations on one calculator.  An exception does not change the
  calculator, so a caller that catches it goes on with the state as it was.
\<close>

datatype calc_op = Observe "pyfloat ndarray" "pyfloat ndarray" | ComputeAndReset

fun calc_step :: "pearsonr_fn \<Rightarrow> pearson_calculator \<Rightarrow> calc_op \<Rightarrow> pearson_calculator" where
  "calc_step pearsonr s (Observe y_hat y) = snd (PearsonCalculator_call s y_hat y)"
| "calc_step pearsonr s ComputeAndReset = fst (snd (calculate_pearson pearsonr s))"

text \<open>
  An operation of a caller that gives equally long arrays to every \<open>__call__\<close> on
  two one-dimensional arrays.
\<close>

fun equal_lengths_given :: "calc_op \<Rightarrow> bool" where
  "equal_lengths_given (Observe y_hat y) =
     (length (shape y_hat) = 1 \<and> length (shape y) = 1 \<longrightarrow> length (flat y_hat) = length (flat y))"
| "equal_lengths_given ComputeAndReset = True"

definition calc_run :: "pearsonr_fn \<Rightarrow> pearson_calculator \<Rightarrow> calc_op list \<Rightarrow> pearson_calculator" where
  "calc_run pearsonr s ops = foldl (calc_step pearsonr) s ops"

text \<open>
  A stand-in for \<open>scipy.stats.pearsonr\<close> in exact arithmetic, used where a concrete
  function is needed: it refuses sequences of different lengths or shorter than two,
  and returns NaN when an input is not finite or is constant.
\<close>

fun is_finite :: "pyfloat \<Rightarrow> bool" where
  "is_finite (Finite r) = True"
| "is_finite _ = False"

fun finite_value :: "pyfloat \<Rightarrow> real" where
  "finite_value (Finite r) = r"
| "finite_value _ = 0"

definition mean :: "real list \<Rightarrow> real" where
  "mean xs = sum_list xs / real (length xs)"

definition pearson_r :: "real list \<Rightarrow> real list \<Rightarrow> pyfloat" where
  "pearson_r xs ys =
     (let xm = map (\<lambda>x. x - mean xs) xs;
          ym = map (\<lambda>y. y - mean ys) ys;
          d = sqrt (sum_list (map (\<lambda>x. x * x) xm)) * sqrt (sum_list (map (\<lambda>y. y * y) ym))
      in if d = 0 then NaN
         else Finite (max (- 1) (min 1 (sum_list (map (\<lambda>(x, y). x * y) (zip xm ym)) / d))))"

definition pearsonr_exact :: pearsonr_fn where
  "pearsonr_exact x y =
     (if length x \<noteq> length y then Inl (ValueError ''x and y must have the same length.'')
      else if length x < 2 then Inl (ValueError ''x and y must have length at least 2.'')
      else if list_all is_finite (x @ y)
      then Inr (pearson_r (map finite_value x) (map finite_value y))
      else Inr NaN)"

section \<open>Strings and \<open>float()\<close>\<close>

text \<open>
  A Python string is modelled as a list of characters with code points below 256.
  \<open>isspace\<close> lists the code points below 256 that Python takes as whitespace, in
  \<open>str.split()\<close> and when \<open>float()\<close> strips its argument.
\<close>

definition isspace :: "char \<Rightarrow> bool" where
  "isspace c = (c \<in> set [CHR 0x09, CHR 0x0A, CHR 0x0B, CHR 0x0C, CHR 0x0D,
                           CHR 0x1C, CHR 0x1D, CHR 0x1E, CHR 0x1F, CHR 0x20,
                           CHR 0x85, CHR 0xA0])"

text \<open>
  \<open>phrase.split()\<close>: the maximal runs of characters that are not whitespace, in
  order.  \<open>str_split_from word s\<close> scans \<open>s\<close> with the word read so far.
\<close>

fun str_split_from :: "string \<Rightarrow> string \<Rightarrow> string list" where
  "str_split_from word [] = (if word = [] then [] else [word])"
| "str_split_from word (c # cs) =
     (if isspace c then (if word = [] then str_split_from [] cs else word # str_split_from [] cs)
      else str_split_from (word @ [c]) cs)"

definition str_split :: "string \<Rightarrow> string list" where
  "str_split s = str_split_from [] s"

text \<open>\<open>s.split(sep)\<close> with a separator character: every separator ends a field.\<close>

fun split_on_from :: "char \<Rightarrow> string \<Rightarrow> string \<Rightarrow> string list" where
  "split_on_from sep field [] = [field]"
| "split_on_from sep field (c # cs) =
     (if c = sep then field # split_on_from sep [] cs else split_on_from sep (field @ [c]) cs)"

definition split_on :: "char \<Rightarrow> string \<Rightarrow> string list" where
  "split_on sep s = split_on_from sep [] s"

definition digit_of :: "char \<Rightarrow> nat option" where
  "digit_of = map_of [(CHR ''0'', 0), (CHR ''1'', 1), (CHR ''2'', 2), (CHR ''3'', 3), (CHR ''4'', 4),
                      (CHR ''5'', 5), (CHR ''6'', 6), (CHR ''7'', 7), (CHR ''8'', 8), (CHR ''9'', 9)]"

definition ascii_lower :: "char \<Rightarrow> char" where
  "ascii_lower c =
     (case map_of (zip ''ABCDEFGHIJKLMNOPQRSTUVWXYZ'' ''abcdefghijklmnopqrstuvwxyz'') c of
        Some l \<Rightarrow> l | None \<Rightarrow> c)"

text \<open>
  The builtin \<open>float()\<close> on a string, after the grammar of the Python language
  reference:
  \<^verbatim>\<open>
  sign          ::= "+" | "-"
  infinity      ::= "Infinity" | "inf"
  nan           ::= "nan"
  digitpart     ::= digit (["_"] digit)*
  number        ::= [digitpart] "." digitpart | digitpart ["."]
  exponent      ::= ("e" | "E") [sign] digitpart
  floatnumber   ::= number [exponent]
  floatvalue    ::= [sign] (floatnumber | infinity | nan)
  \<close>
  Case is not significant in \<open>inf\<close>, \<open>infinity\<close> and \<open>nan\<close>.  \<open>None\<close> is
  ValueError.  Around the value \<open>float()\<close> drops the whitespace of \<open>float_space\<close>:
  the ASCII characters tab to carriage return and the space, and the whitespace beyond
  ASCII, which it first turns into spaces; the separators 0x1C to 0x1F are not dropped.
  A decimal is rounded to the nearest float: one of magnitude at least
  \<open>2^1024 - 2^970\<close> becomes an infinity, one of magnitude at most \<open>2^-1075\<close>
  becomes zero (\<open>to_float\<close>); the rounding of the decimals between is not modelled.
\<close>

text \<open>\<open>more_digits s\<close> reads \<open>(["_"] digit)*\<close> from the front of \<open>s\<close>.\<close>

fun more_digits :: "string \<Rightarrow> nat list \<times> string" where
  "more_digits [] = ([], [])"
| "more_digits [c] = (case digit_of c of Some d \<Rightarrow> ([d], []) | None \<Rightarrow> ([], [c]))"
| "more_digits (c # c' # cs) =
     (case digit_of c of
        Some d \<Rightarrow> (let (ds, rest) = more_digits (c' # cs) in (d # ds, rest))
      | None \<Rightarrow>
          (if c = CHR ''_'' then
             (case digit_of c' of
                Some d \<Rightarrow> (let (ds, rest) = more_digits cs in (d # ds, rest))
              | None \<Rightarrow> ([], c # c' # cs))
           else ([], c # c' # cs)))"

text \<open>An optional \<open>digitpart\<close>: no digits when \<open>s\<close> does not start with a digit.\<close>

definition digitpart :: "string \<Rightarrow> nat list \<times> string" where
  "digitpart s =
     (case s of
        [] \<Rightarrow> ([], [])
      | c # cs \<Rightarrow> (case digit_of c of None \<Rightarrow> ([], s) | Some _ \<Rightarrow> more_digits s))"

definition digits_value :: "nat list \<Rightarrow> nat" where
  "digits_value ds = foldl (\<lambda>a d. 10 * a + d) 0 ds"

text \<open>The value of the digits \<open>ip.fp\<close> scaled by ten to the power \<open>e\<close>.\<close>

definition decimal_value :: "nat list \<Rightarrow> nat list \<Rightarrow> int \<Rightarrow> real" where
  "decimal_value ip fp e =
     (let m = real (digits_value (ip @ fp)); k = e - int (length fp)
      in if 0 \<le> k then m * 10 ^ nat k else m / 10 ^ nat (- k))"

definition exponent :: "nat list \<Rightarrow> nat list \<Rightarrow> string \<Rightarrow> real option" where
  "exponent ip fp s =
     (case s of
        [] \<Rightarrow> Some (decimal_value ip fp 0)
      | c # cs \<Rightarrow>
          (if c = CHR ''e'' \<or> c = CHR ''E'' then
             (let (neg, ds) = (case cs of
                                 [] \<Rightarrow> (False, cs)
                               | x # xs \<Rightarrow> if x = CHR ''-'' then (True, xs)
                                            else if x = CHR ''+'' then (False, xs)
                                            else (False, cs));
                  (ep, rest) = digitpart ds
              in if ep = [] \<or> rest \<noteq> [] then None
                 else Some (decimal_value ip fp
                              (if neg then - int (digits_value ep) else int (digits_value ep))))
           else None))"

definition floatnumber :: "string \<Rightarrow> real option" where
  "floatnumber s =
     (let (ip, r1) = digitpart s in
        case r1 of
          [] \<Rightarrow> (if ip = [] then None else exponent ip [] r1)
        | c # r2 \<Rightarrow>
            (if c = CHR ''.'' then
               (let (fp, r3) = digitpart r2
                in if ip = [] \<and> fp = [] then None else exponent ip fp r3)
             else if ip = [] then None else exponent ip [] r1))"

text \<open>\<open>s.strip()\<close>.\<close>

definition strip :: "string \<Rightarrow> string" where
  "strip s = rev (dropWhile isspace (rev (dropWhile isspace s)))"

definition float_space :: "char \<Rightarrow> bool" where
  "float_space c = (c \<in> set [CHR 0x09, CHR 0x0A, CHR 0x0B, CHR 0x0C, CHR 0x0D, CHR 0x20,
                               CHR 0x85, CHR 0xA0])"

definition to_float :: "real \<Rightarrow> pyfloat" where
  "to_float r =
     (if 2 ^ 1024 - 2 ^ 970 \<le> \<bar>r\<bar> then (if r < 0 then NegInf else PosInf)
      else if \<bar>r\<bar> \<le> 1 / 2 ^ 1075 then Finite 0
      else Finite r)"

definition float :: "string \<Rightarrow> pyfloat option" where
  "float s =
     (let t = rev (dropWhile float_space (rev (dropWhile float_space s)));
          (neg, body) = (case t of
                           [] \<Rightarrow> (False, t)
                         | x # xs \<Rightarrow> if x = CHR ''-'' then (True, xs)
                                      else if x = CHR ''+'' then (False, xs)
                                      else (False, t));
          low = map ascii_lower body
      in if low = ''inf'' \<or> low = ''infinity'' then Some (if neg then NegInf else PosInf)
         else if low = ''nan'' then Some NaN
         else (case floatnumber body of
                 None \<Rightarrow> None
               | Some r \<Rightarrow> Some (to_float (if neg then - r else r))))"

section \<open>Decoding generated text into a score\<close>

text \<open>
  The loop of \<open>validation_step\<close> over the words of one generated phrase.  The first
  word that \<open>float()\<close> accepts is clamped by the two comparisons and ends the loop
  (\<open>break\<close>); a word it refuses is skipped (\<open>except ValueError: pass\<close>).
  \<open>Some v\<close> is the value assigned to \<open>y_hat[n]\<close>, \<open>None\<close> is no assignment.
\<close>

fun scan_words :: "string list \<Rightarrow> pyfloat option" where
  "scan_words [] = None"
| "scan_words (word # rest) =
     (case float word of
        None \<Rightarrow> scan_words rest
      | Some number \<Rightarrow>
          Some (if float_gt number (Finite 5.0) then Finite 5.0
                else if float_lt number (Finite 1.0) then Finite 1.0
                else number))"

text \<open>
  The entry of \<open>y_hat\<close> for one phrase: \<open>y_hat\<close> starts as zeros
  (\<open>torch.zeros_like\<close>), so a phrase without a number leaves 0.0.
\<close>

definition decode_phrase :: "string \<Rightarrow> pyfloat" where
  "decode_phrase phrase = (case scan_words (str_split phrase) of None \<Rightarrow> Finite 0 | Some v \<Rightarrow> v)"

section \<open>Results that may raise\<close>

definition and_then :: "error + 'a \<Rightarrow> ('a \<Rightarrow> error + 'b) \<Rightarrow> error + 'b" where
  "and_then r f = (case r of Inl e \<Rightarrow> Inl e | Inr x \<Rightarrow> f x)"

text \<open>Applying a function that may raise to every element in turn: the first error ends it.\<close>

fun map_all :: "('a \<Rightarrow> error + 'b) \<Rightarrow> 'a list \<Rightarrow> error + 'b list" where
  "map_all f [] = Inr []"
| "map_all f (x # xs) =
     (case f x of
        Inl e \<Rightarrow> Inl e
      | Inr v \<Rightarrow> (case map_all f xs of Inl e \<Rightarrow> Inl e | Inr vs \<Rightarrow> Inr (v # vs)))"

section \<open>Layers\<close>

text \<open>
  Tensors of the network are modelled over the reals.  \<open>nn.Linear\<close> holds a weight
  matrix (one row for each output) and a bias; applied to a vector whose length is not
  its input size, it raises.
\<close>

record linear =
  weight :: "real list list"
  bias :: "real list"

definition Linear_forward :: "linear \<Rightarrow> real list \<Rightarrow> error + real list" where
  "Linear_forward l x =
     (if list_all (\<lambda>w. length w = length x) (weight l) \<and> length (bias l) = length (weight l)
      then Inr (map (\<lambda>(w, b). sum_list (map (\<lambda>(a, v). a * v) (zip w x)) + b) (zip (weight l) (bias l)))
      else Inl (ExternalError ''size mismatch''))"

definition sigmoid :: "real \<Rightarrow> real" where
  "sigmoid v = 1 / (1 + exp (- v))"

definition ReLU :: "real \<Rightarrow> real" where
  "ReLU v = max 0 v"

text \<open>
  \<open>nn.Dropout(0.5)\<close>: the identity in evaluation mode; in training mode the elements
  that the random mask \<open>keep\<close> drops become 0 and the others are scaled by
  \<open>1 / (1 - 0.5)\<close>.
\<close>

definition Dropout :: "bool \<Rightarrow> (nat \<Rightarrow> bool) \<Rightarrow> real list \<Rightarrow> real list" where
  "Dropout train keep xs =
     (if train then map (\<lambda>(i, v). if keep i then 2 * v else 0) (enumerate 0 xs) else xs)"

text \<open>
  \<open>NONLinearInput.forward\<close> on one example:
  \<open>1 + self.net(x.float()).sigmoid() * 4\<close>, with \<open>net\<close> the sequence Linear, ReLU,
  Dropout.
\<close>

definition NONLinearInput_forward ::
  "bool \<Rightarrow> (nat \<Rightarrow> bool) \<Rightarrow> linear \<Rightarrow> int list \<Rightarrow> error + real list"
where
  "NONLinearInput_forward train keep net x =
     and_then (Linear_forward net (map real_of_int x))
       (\<lambda>h. Inr (map (\<lambda>v. 1 + sigmoid v * 4) (Dropout train keep (map ReLU h))))"

section \<open>T5ASSIN: construction\<close>

text \<open>The hyperparameters the model reads.  \<open>checkpoint_path\<close> has no default: it may be None.\<close>

record hparams =
  vocab_name :: string
  model_name :: string
  architecture :: string
  nout :: int
  seq_len :: int
  checkpoint_path :: "string option"

datatype t5_class = T5ForConditionalGeneration | T5Model

text \<open>
  \<open>self.t5\<close>: a pretrained network of one of the two transformer classes, or the
  \<open>NONLinearInput\<close> that replaces it, with the Linear of its \<open>net\<close>.
\<close>

datatype 'net backbone = Pretrained t5_class 'net | NONLinearInput linear

datatype loss_kind = CrossEntropyLoss | MSELoss

text \<open>
  The attributes of a model.  \<open>self_linear\<close> is None when \<open>__init__\<close> sets no
  \<open>self.linear\<close>; \<open>self_training\<close> is the mode flag of \<open>nn.Module\<close>.
\<close>

record ('tok, 'net) T5ASSIN =
  self_hparams :: hparams
  self_tokenizer :: 'tok
  self_size :: string
  self_t5 :: "'net backbone"
  self_linear :: "linear option"
  self_loss :: loss_kind
  self_pearson_calculator :: pearson_calculator
  self_training :: bool

text \<open>
  What \<open>__init__\<close> calls outside this file: the vocabulary, the file system and the
  transformer library.  Each call either raises or returns.  \<open>from_state\<close> is
  \<open>from_pretrained\<close> given a configuration and a state dictionary, \<open>from_name\<close>
  given a model name; \<open>d_model\<close> reads \<open>config.d_model\<close> of a loaded network;
  \<open>nn_Linear\<close> builds a layer with freshly drawn parameters.
\<close>

record ('tok, 'cfg, 'sd, 'net) library =
  get_custom_vocab :: "error + 'tok"
  T5Tokenizer_from_pretrained :: "string \<Rightarrow> error + 'tok"
  glob :: "string \<Rightarrow> string list"
  PretrainedConfig_from_json_file :: "string \<Rightarrow> error + 'cfg"
  torch_load :: "string \<Rightarrow> error + 'sd"
  from_state :: "t5_class \<Rightarrow> 'cfg \<Rightarrow> 'sd \<Rightarrow> error + 'net"
  from_name :: "t5_class \<Rightarrow> string \<Rightarrow> error + 'net"
  d_model :: "'net \<Rightarrow> int"
  nn_Linear :: "int \<Rightarrow> int \<Rightarrow> error + linear"

definition CONFIG_PATH :: string where
  "CONFIG_PATH = ''T5_configs_json''"

text \<open>\<open>os.path.join\<close> of two components, on POSIX.\<close>

definition os_path_join :: "string \<Rightarrow> string \<Rightarrow> string" where
  "os_path_join a b =
     (if b \<noteq> [] \<and> hd b = CHR ''/'' then b
      else if a = [] \<or> last a = CHR ''/'' then a @ b
      else a @ ''/'' @ b)"

text \<open>The model size read from the model name.\<close>

definition detect_size :: "string \<Rightarrow> error + string" where
  "detect_size name =
     (if ''small'' \<in> set (split_on CHR ''-'' name) then Inr ''small''
      else if ''base'' \<in> set (split_on CHR ''-'' name) then Inr ''base''
      else if ''large'' \<in> set (split_on CHR ''-'' name) then Inr ''large''
      else Inl (ValueError ''Couldn't detect model size from model_name.''))"

text \<open>
  \<open>get_ptt5\<close>.  The assertion's message ends with the two lists of paths, which the
  model leaves out.
\<close>

definition get_ptt5 ::
  "('tok, 'cfg, 'sd, 'net) library \<Rightarrow> hparams \<Rightarrow> string \<Rightarrow> error + ('cfg \<times> 'sd)"
where
  "get_ptt5 lib h sz =
     (case checkpoint_path h of
        None \<Rightarrow> Inl (TypeError ''expected str, bytes or os.PathLike object, not NoneType'')
      | Some dir \<Rightarrow>
          (let ckpt_paths = glob lib (os_path_join dir (model_name h @ ''*''));
               config_paths = glob lib (os_path_join CONFIG_PATH (''ptt5*'' @ sz @ ''*''))
           in if \<not> (length ckpt_paths = 1 \<and> length config_paths = 1)
              then Inl (AssertionError ''Are the config/ckpts on the correct path?'')
              else and_then (PretrainedConfig_from_json_file lib (hd config_paths))
                     (\<lambda>config. and_then (torch_load lib (hd ckpt_paths))
                        (\<lambda>state_dict. Inr (config, state_dict)))))"

text \<open>
  The first part of \<open>__init__\<close>, up to \<open>D = self.t5.config.d_model\<close>: the tokenizer,
  the size and the pretrained network, of the class the architecture asks for.
\<close>

definition load_pretrained ::
  "('tok, 'cfg, 'sd, 'net) library \<Rightarrow> hparams \<Rightarrow> error + ('tok \<times> string \<times> t5_class \<times> 'net)"
where
  "load_pretrained lib h =
     and_then (if vocab_name h = ''custom'' then get_custom_vocab lib
               else T5Tokenizer_from_pretrained lib (vocab_name h))
      (\<lambda>tok. and_then (detect_size (model_name h))
        (\<lambda>sz. let cls = (if architecture h \<in> set [''gen'', ''categoric_gen'']
                           then T5ForConditionalGeneration else T5Model)
               in and_then
                    (if take 2 (model_name h) = ''pt''
                     then and_then (get_ptt5 lib h sz) (\<lambda>(config, state_dict). from_state lib cls config state_dict)
                     else from_name lib cls (model_name h))
                    (\<lambda>net. Inr (tok, sz, cls, net))))"

text \<open>
  \<open>__init__\<close>.  After the loading: the \<open>mlp\<close> architecture replaces the network by
  a \<open>NONLinearInput\<close>; every architecture but the two generative ones gets a linear
  head, of \<open>nout\<close> outputs for \<open>categoric\<close> (where \<open>nout\<close> must not be 1) and of one
  output otherwise; the loss is cross entropy for the two categoric architectures and
  the mean squared error otherwise.  No branch compares the architecture with a list
  of known names: a string that is none of \<open>mlp\<close>, \<open>categoric\<close>, \<open>gen\<close> and
  \<open>categoric_gen\<close> takes the last alternative everywhere.  The assertions are those of
  a Python run without \<open>-O\<close>.
\<close>

definition T5ASSIN_init ::
  "('tok, 'cfg, 'sd, 'net) library \<Rightarrow> hparams \<Rightarrow> error + ('tok, 'net) T5ASSIN"
where
  "T5ASSIN_init lib h =
     and_then (load_pretrained lib h)
      (\<lambda>(tok, sz, cls, net).
        let D = d_model lib net in
        and_then (if architecture h = ''mlp''
                  then and_then (nn_Linear lib (seq_len h) D) (\<lambda>l. Inr (NONLinearInput l))
                  else Inr (Pretrained cls net))
         (\<lambda>t5.
           and_then (if architecture h \<notin> set [''gen'', ''categoric_gen'']
                     then (if architecture h = ''categoric''
                           then (if nout h \<noteq> 1
                                 then and_then (nn_Linear lib D (nout h)) (\<lambda>l. Inr (Some l))
                                 else Inl (AssertionError
                                   ''Categoric mode with 1 nout doesn't work with CrossEntropyLoss''))
                           else and_then (nn_Linear lib D 1) (\<lambda>l. Inr (Some l)))
                     else Inr None)
            (\<lambda>head.
              Inr \<lparr>self_hparams = h, self_tokenizer = tok, self_size = sz, self_t5 = t5,
                   self_linear = head,
                   self_loss = (if architecture h \<in> set [''categoric'', ''categoric_gen'']
                                then CrossEntropyLoss else MSELoss),
                   self_pearson_calculator = PearsonCalculator_init,
                   self_training = True\<rparr>)))"

section \<open>T5ASSIN: forward pass and validation hooks\<close>

text \<open>
  A batch: token ids and attention mask (one row for each example), the target token
  ids \<open>y\<close> and the one-dimensional tensor of target numbers.
\<close>

record batch =
  input_ids :: "int list list"
  attention_mask :: "int list list"
  batch_y :: "int list list"
  original_number :: "pyfloat list"

text \<open>
  What the hooks call outside this file.  \<open>t5_hidden_mean\<close> is the call
  \<open>self.t5(input_ids=..., decoder_input_ids=..., attention_mask=...)[0].mean(dim=1)\<close>,
  \<open>t5_lm_loss\<close> the call with \<open>lm_labels\<close>, \<open>t5_generate\<close> is \<open>generate\<close> with its
  maximal length.  \<open>loss_fn\<close> applies \<open>self.loss\<close>, \<open>argmax_accuracy\<close> is
  \<open>y_hat.argmax(dim=1).eq(target).float().mean()\<close>, \<open>stack_mean\<close> is
  \<open>torch.stack(...).mean()\<close>.  \<open>dropout_keep n i\<close> is the random mask of Dropout for
  feature \<open>i\<close> of example \<open>n\<close>; \<open>scipy_pearsonr\<close> is \<open>scipy.stats.pearsonr\<close>.
\<close>

record ('tok, 'net) runtime =
  t5_hidden_mean :: "t5_class \<Rightarrow> 'net \<Rightarrow> int list list \<Rightarrow> int list list \<Rightarrow> error + real list list"
  t5_lm_loss :: "t5_class \<Rightarrow> 'net \<Rightarrow> int list list \<Rightarrow> int list list \<Rightarrow> int list list \<Rightarrow> error + real"
  t5_generate :: "t5_class \<Rightarrow> 'net \<Rightarrow> int list list \<Rightarrow> int list list \<Rightarrow> nat \<Rightarrow> error + int list list"
  tokenizer_decode :: "'tok \<Rightarrow> int list \<Rightarrow> string"
  loss_fn :: "loss_kind \<Rightarrow> pyfloat ndarray \<Rightarrow> pyfloat list \<Rightarrow> error + pyfloat"
  argmax_accuracy :: "pyfloat ndarray \<Rightarrow> pyfloat list \<Rightarrow> error + pyfloat"
  stack_mean :: "pyfloat list \<Rightarrow> error + pyfloat"
  dropout_keep :: "nat \<Rightarrow> nat \<Rightarrow> bool"
  scipy_pearsonr :: pearsonr_fn

text \<open>What \<open>forward\<close> returns: a tensor of numbers, or generated token ids.\<close>

datatype fwd = Tensor "pyfloat ndarray" | Tokens "int list list"

text \<open>The tensor of shape (batch, k) with the given rows.\<close>

definition matrix :: "real list list \<Rightarrow> nat \<Rightarrow> pyfloat ndarray" where
  "matrix rows k = NDArray [length rows, k] (map Finite (concat rows))"

text \<open>\<open>self.linear\<close> applied to every row.  The attribute is looked up first.\<close>

definition apply_head ::
  "linear option \<Rightarrow> (real \<Rightarrow> real) \<Rightarrow> error + real list list \<Rightarrow> error + fwd"
where
  "apply_head head post rows =
     (case head of
        None \<Rightarrow> Inl (AttributeError ''linear'')
      | Some lin \<Rightarrow>
          and_then rows (\<lambda>h. and_then (map_all (Linear_forward lin) h)
            (\<lambda>out. Inr (Tensor (matrix (map (map post) out) (length (weight lin)))))))"

text \<open>The transformer applied to the batch; a \<open>NONLinearInput\<close> takes no keywords.\<close>

definition hidden_mean :: "('tok, 'net) runtime \<Rightarrow> ('tok, 'net) T5ASSIN \<Rightarrow> batch \<Rightarrow> error + real list list" where
  "hidden_mean rt m b =
     (case self_t5 m of
        Pretrained cls net \<Rightarrow> t5_hidden_mean rt cls net (input_ids b) (attention_mask b)
      | NONLinearInput _ \<Rightarrow> Inl (TypeError ''forward() got an unexpected keyword argument''))"

text \<open>
  \<open>forward\<close>.  In \<open>mlp\<close> mode the result is \<open>self.linear(self.t5(input_ids))\<close> with
  \<open>self.t5\<close> the \<open>NONLinearInput\<close>: the linear head comes last.  The last
  alternative, taken by every other architecture string, applies
  \<open>1 + sigmoid(.) * 4\<close> after the head.
\<close>

definition forward :: "('tok, 'net) runtime \<Rightarrow> ('tok, 'net) T5ASSIN \<Rightarrow> batch \<Rightarrow> error + fwd" where
  "forward rt m b =
     (if architecture (self_hparams m) = ''mlp'' then
        apply_head (self_linear m) (\<lambda>v. v)
          (case self_t5 m of
             NONLinearInput net \<Rightarrow>
               map_all (\<lambda>(n, x). NONLinearInput_forward (self_training m) (dropout_keep rt n) net x)
                 (enumerate 0 (input_ids b))
           | Pretrained cls net \<Rightarrow> Inl (ValueError ''You have to specify either decoder_input_ids or decoder_inputs_embeds''))
      else if architecture (self_hparams m) = ''categoric'' then
        apply_head (self_linear m) (\<lambda>v. v) (hidden_mean rt m b)
      else if architecture (self_hparams m) \<in> set [''gen'', ''categoric_gen''] then
        (case self_t5 m of
           Pretrained cls net \<Rightarrow>
             (if self_training m
              then and_then (t5_lm_loss rt cls net (input_ids b) (attention_mask b) (batch_y b))
                     (\<lambda>l. Inr (Tensor (NDArray [] [Finite l])))
              else and_then (t5_generate rt cls net (input_ids b) (attention_mask b) 5)
                     (\<lambda>t. Inr (Tokens t)))
         | NONLinearInput _ \<Rightarrow> Inl (TypeError ''forward() got an unexpected keyword argument''))
      else
        apply_head (self_linear m) (\<lambda>v. 1 + sigmoid v * 4) (hidden_mean rt m b))"

text \<open>\<open>.squeeze(-1)\<close>: a last dimension of size 1 is removed.\<close>

definition squeeze_last :: "'a ndarray \<Rightarrow> 'a ndarray" where
  "squeeze_last a =
     (if shape a \<noteq> [] \<and> last (shape a) = 1 then NDArray (butlast (shape a)) (flat a) else a)"

text \<open>
  The loop of \<open>validation_step\<close> over the generated phrases, from phrase number \<open>n\<close>:
  \<open>y_hat[n] = number\<close> raises IndexError outside the tensor.
\<close>

fun fill_y_hat :: "pyfloat list \<Rightarrow> nat \<Rightarrow> string list \<Rightarrow> error + pyfloat list" where
  "fill_y_hat y_hat n [] = Inr y_hat"
| "fill_y_hat y_hat n (phrase # rest) =
     (case scan_words (str_split phrase) of
        None \<Rightarrow> fill_y_hat y_hat (Suc n) rest
      | Some number \<Rightarrow>
          (if n < length y_hat then fill_y_hat (y_hat[n := number]) (Suc n) rest
           else Inl (IndexError ''index is out of bounds for dimension 0'')))"

text \<open>The mean of a tensor of truth values; NaN when it is empty.\<close>

definition bools_mean :: "bool list \<Rightarrow> pyfloat" where
  "bools_mean bs =
     (if bs = [] then NaN else Finite (real (length (filter (\<lambda>b. b) bs)) / real (length bs)))"

text \<open>A dictionary with string keys, and \<open>d[k]\<close>.\<close>

type_synonym dict = "(string \<times> pyfloat) list"

definition dict_get :: "dict \<Rightarrow> string \<Rightarrow> error + pyfloat" where
  "dict_get d k = (case map_of d k of None \<Rightarrow> Inl (KeyError k) | Some v \<Rightarrow> Inr v)"

text \<open>
  \<open>validation_step\<close>: what it returns and the model it leaves.  Only the last
  alternative calls the Pearson calculator, after the loss.
\<close>

definition validation_step ::
  "('tok, 'net) runtime \<Rightarrow> ('tok, 'net) T5ASSIN \<Rightarrow> batch \<Rightarrow> (error + dict) \<times> ('tok, 'net) T5ASSIN"
where
  "validation_step rt m b =
     (if architecture (self_hparams m) = ''gen'' then
        (and_then (forward rt m b)
           (\<lambda>out. case out of
              Tensor _ \<Rightarrow> Inl (TypeError ''iteration over a 0-d tensor'')
            | Tokens pred_tokens \<Rightarrow>
                and_then (fill_y_hat (replicate (length (original_number b)) (Finite 0)) 0
                            (map (tokenizer_decode rt (self_tokenizer m)) pred_tokens))
                  (\<lambda>y_hat. and_then (loss_fn rt (self_loss m) (array1 y_hat) (original_number b))
                     (\<lambda>l. Inr [(''loss'', l)]))),
         m)
      else if architecture (self_hparams m) = ''categoric_gen'' then
        (and_then (forward rt m b)
           (\<lambda>out. case out of
              Tensor _ \<Rightarrow> Inl (TypeError ''iteration over a 0-d tensor'')
            | Tokens pred_tokens \<Rightarrow>
                (let string_y_hat = map (\<lambda>pred. strip (tokenizer_decode rt (self_tokenizer m) pred)) pred_tokens;
                     string_y = map (\<lambda>target_y. strip (tokenizer_decode rt (self_tokenizer m) target_y)) (batch_y b)
                 in Inr [(''acc'', bools_mean (map (\<lambda>(str_y_hat, str_y). str_y_hat = str_y)
                                                   (zip string_y_hat string_y)))])),
         m)
      else if architecture (self_hparams m) = ''categoric'' then
        (and_then (forward rt m b)
           (\<lambda>out. case out of
              Tokens _ \<Rightarrow> Inl (TypeError ''not a tensor of scores'')
            | Tensor y_hat \<Rightarrow>
                and_then (loss_fn rt (self_loss m) y_hat (original_number b))
                  (\<lambda>l. and_then (argmax_accuracy rt y_hat (original_number b))
                     (\<lambda>acc. Inr [(''loss'', l), (''acc'', acc)]))),
         m)
      else
        (case forward rt m b of
           Inl e \<Rightarrow> (Inl e, m)
         | Inr (Tokens _) \<Rightarrow> (Inl (TypeError ''not a tensor of scores''), m)
         | Inr (Tensor t) \<Rightarrow>
             (let y_hat = squeeze_last t in
              case loss_fn rt (self_loss m) y_hat (original_number b) of
                Inl e \<Rightarrow> (Inl e, m)
              | Inr l \<Rightarrow>
                  (case PearsonCalculator_call (self_pearson_calculator m) y_hat (array1 (original_number b)) of
                     (Inl e, c) \<Rightarrow> (Inl e, m\<lparr>self_pearson_calculator := c\<rparr>)
                   | (Inr _, c) \<Rightarrow> (Inr [(''loss'', l)], m\<lparr>self_pearson_calculator := c\<rparr>)))))"

text \<open>
  What \<open>validation_epoch_end\<close> returns: the entries beside \<open>log\<close> and
  \<open>progress_bar\<close>, and those two dictionaries.
\<close>

record epoch_result =
  result_entries :: dict
  result_log :: dict
  result_progress_bar :: dict

text \<open>
  \<open>validation_epoch_end\<close>: what it returns, the model it leaves and the log records it
  writes.  The last alternative, taken by every architecture but \<open>categoric\<close> and
  \<open>categoric_gen\<close>, calls \<open>calculate_pearson\<close> after the mean of the losses.
\<close>

definition validation_epoch_end ::
  "('tok, 'net) runtime \<Rightarrow> ('tok, 'net) T5ASSIN \<Rightarrow> dict list \<Rightarrow>
     (error + epoch_result) \<times> ('tok, 'net) T5ASSIN \<times> log_record list"
where
  "validation_epoch_end rt m outputs =
     (if architecture (self_hparams m) = ''categoric'' then
        (and_then (and_then (map_all (\<lambda>x. dict_get x ''loss'') outputs) (stack_mean rt))
           (\<lambda>l. and_then (and_then (map_all (\<lambda>x. dict_get x ''acc'') outputs) (stack_mean rt))
              (\<lambda>acc. Inr \<lparr>result_entries = [(''val_loss'', l), (''val_acc'', acc)],
                          result_log = [(''val_loss'', l), (''val_acc'', acc)],
                          result_progress_bar = [(''val_loss'', l), (''val_acc'', acc)]\<rparr>)),
         m, [])
      else if architecture (self_hparams m) = ''categoric_gen'' then
        (and_then (and_then (map_all (\<lambda>x. dict_get x ''acc'') outputs) (stack_mean rt))
           (\<lambda>acc. Inr \<lparr>result_entries = [(''val_acc'', acc)],
                       result_log = [(''val_acc'', acc)],
                       result_progress_bar = [(''val_acc'', acc)]\<rparr>),
         m, [])
      else
        (case and_then (map_all (\<lambda>x. dict_get x ''loss'') outputs) (stack_mean rt) of
           Inl e \<Rightarrow> (Inl e, m, [])
         | Inr l \<Rightarrow>
             (case calculate_pearson (scipy_pearsonr rt) (self_pearson_calculator m) of
                (Inl e, c, lg) \<Rightarrow> (Inl e, m\<lparr>self_pearson_calculator := c\<rparr>, lg)
              | (Inr pearson, c, lg) \<Rightarrow>
                  (Inr \<lparr>result_entries = [(''val_loss'', l)],
                        result_log = [(''val_loss'', l), (''val_pearson'', pearson)],
                        result_progress_bar = [(''val_loss'', l), (''val_pearson'', pearson)]\<rparr>,
                   m\<lparr>self_pearson_calculator := c\<rparr>, lg))))"

text \<open>
  One validation epoch as the training harness drives it: \<open>validation_step\<close> on every
  batch, then \<open>validation_epoch_end\<close> on the collected outputs.  An exception ends the
  epoch.
\<close>

fun validation_steps ::
  "('tok, 'net) runtime \<Rightarrow> ('tok, 'net) T5ASSIN \<Rightarrow> batch list \<Rightarrow> (error + dict list) \<times> ('tok, 'net) T5ASSIN"
where
  "validation_steps rt m [] = (Inr [], m)"
| "validation_steps rt m (b # bs) =
     (case validation_step rt m b of
        (Inl e, m') \<Rightarrow> (Inl e, m')
      | (Inr out, m') \<Rightarrow>
          (case validation_steps rt m' bs of
             (Inl e, m'') \<Rightarrow> (Inl e, m'')
           | (Inr outs, m'') \<Rightarrow> (Inr (out # outs), m'')))"

definition validation_epoch ::
  "('tok, 'net) runtime \<Rightarrow> ('tok, 'net) T5ASSIN \<Rightarrow> batch list \<Rightarrow>
     (error + epoch_result) \<times> ('tok, 'net) T5ASSIN \<times> log_record list"
where
  "validation_epoch rt m bs =
     (case validation_steps rt m bs of
        (Inl e, m') \<Rightarrow> (Inl e, m', [])
      | (Inr outputs, m') \<Rightarrow> validation_epoch_end rt m' outputs)"

text \<open>
  Successive validation epochs, each with its batches: the results of the epochs that
  returned, up to the first exception, and the model left.
\<close>

fun validation_epochs ::
  "('tok, 'net) runtime \<Rightarrow> ('tok, 'net) T5ASSIN \<Rightarrow> batch list list \<Rightarrow> epoch_result list \<times> ('tok, 'net) T5ASSIN"
where
  "validation_epochs rt m [] = ([], m)"
| "validation_epochs rt m (bs # rest) =
     (case validation_epoch rt m bs of
        (Inl e, m', lg) \<Rightarrow> ([], m')
      | (Inr r, m', lg) \<Rightarrow>
          (case validation_epochs rt m' rest of (rs, m'') \<Rightarrow> (r # rs, m'')))"

section \<open>The score range, and stand-ins for the collaborators\<close>

text \<open>A score of the data set: a finite number from 1 to 5.\<close>

fun in_score_range :: "pyfloat \<Rightarrow> bool" where
  "in_score_range (Finite r) = (1 \<le> r \<and> r \<le> 5)"
| "in_score_range _ = False"

text \<open>The two comparisons that \<open>validation_step\<close> applies to a parsed number.\<close>

definition clamp :: "pyfloat \<Rightarrow> pyfloat" where
  "clamp number =
     (if float_gt number (Finite 5.0) then Finite 5.0
      else if float_lt number (Finite 1.0) then Finite 1.0
      else number)"

text \<open>
  Concrete collaborators, for running the model on examples.  The library finds every
  file it is asked for, names a tokenizer and a network by the name they were loaded
  from, has \<open>d_model = 2\<close> and builds layers of zeros.  The runtime generates the
  first tokens of the input, decodes a sequence that starts with token 0 as \<open>nan\<close>
  and any other as \<open>3.2 points\<close>, and keeps every feature in Dropout.
\<close>

definition stub_library :: "(string, string, string, string) library" where
  "stub_library =
     \<lparr>get_custom_vocab = Inr ''custom'',
      T5Tokenizer_from_pretrained = (\<lambda>name. Inr name),
      glob = (\<lambda>pattern. [pattern]),
      PretrainedConfig_from_json_file = (\<lambda>path. Inr path),
      torch_load = (\<lambda>path. Inr path),
      from_state = (\<lambda>cls config state_dict. Inr state_dict),
      from_name = (\<lambda>cls name. Inr name),
      d_model = (\<lambda>net. 2),
      nn_Linear = (\<lambda>nin nout.
        if nin < 0 \<or> nout < 0 then Inl (ExternalError ''negative dimension'')
        else Inr \<lparr>weight = replicate (nat nout) (replicate (nat nin) 0),
                  bias = replicate (nat nout) 0\<rparr>)\<rparr>"

definition stub_hparams :: "string \<Rightarrow> int \<Rightarrow> hparams" where
  "stub_hparams a n =
     \<lparr>vocab_name = ''t5-small'', model_name = ''t5-small'', architecture = a, nout = n,
      seq_len = 3, checkpoint_path = None\<rparr>"

definition stub_mse :: "pyfloat ndarray \<Rightarrow> pyfloat list \<Rightarrow> pyfloat" where
  "stub_mse y_hat target =
     (if length (flat y_hat) = length target \<and> target \<noteq> []
         \<and> list_all is_finite (flat y_hat @ target)
      then Finite (mean (map (\<lambda>(a, b). (finite_value a - finite_value b)\<^sup>2)
                          (zip (flat y_hat) target)))
      else NaN)"

definition stub_runtime :: "(string, string) runtime" where
  "stub_runtime =
     \<lparr>t5_hidden_mean = (\<lambda>cls net ids mask. Inr (map (\<lambda>row. [0, 0]) ids)),
      t5_lm_loss = (\<lambda>cls net ids mask labels. Inr 0),
      t5_generate = (\<lambda>cls net ids mask n. Inr (map (take n) ids)),
      tokenizer_decode = (\<lambda>tok ids. if ids = [] then [] else if hd ids = 0 then ''nan'' else ''3.2 points''),
      loss_fn = (\<lambda>kind y_hat target. Inr (stub_mse y_hat target)),
      argmax_accuracy = (\<lambda>y_hat target. Inr (Finite 1)),
      stack_mean = (\<lambda>xs. if xs = [] then Inl (ExternalError ''stack expects a non-empty list'')
                          else Inr (hd xs)),
      dropout_keep = (\<lambda>n i. True),
      scipy_pearsonr = pearsonr_exact\<rparr>"

definition stub_batch :: batch where
  "stub_batch = \<lparr>input_ids = [[7, 1, 0], [0, 2, 5]], attention_mask = [[1, 1, 0], [1, 1, 1]],
                 batch_y = [[3], [4]], original_number = [Finite 3.5, Finite 2]\<rparr>"

text \<open>
  A model in \<open>mlp\<close> mode, in evaluation mode, whose head adds up the two features.
\<close>

definition mlp_model :: "(string, string) T5ASSIN" where
  "mlp_model =
     \<lparr>self_hparams = stub_hparams ''mlp'' 1, self_tokenizer = ''t5-small'', self_size = ''small'',
      self_t5 = NONLinearInput \<lparr>weight = [[0, 0, 0], [0, 0, 0]], bias = [0, 0]\<rparr>,
      self_linear = Some \<lparr>weight = [[1, 1]], bias = [0]\<rparr>, self_loss = MSELoss,
      self_pearson_calculator = PearsonCalculator_init, self_training = False\<rparr>"

text \<open>
  The layers of a model in \<open>mlp\<close> mode as \<open>__init__\<close> builds them, whatever their
  parameters: a \<open>NONLinearInput\<close> in place of the transformer and a linear head of
  one output.
\<close>

definition mlp_layout :: "('tok, 'net) T5ASSIN \<Rightarrow> bool" where
  "mlp_layout m =
     (architecture (self_hparams m) = ''mlp'' \<and>
      (case self_t5 m of NONLinearInput net \<Rightarrow> True | Pretrained cls net \<Rightarrow> False) \<and>
      (case self_linear m of Some lin \<Rightarrow> length (weight lin) = 1 | None \<Rightarrow> False))"

text \<open>The model that \<open>__init__\<close> builds in \<open>gen\<close> mode, put in evaluation mode.\<close>

definition gen_model :: "(string, string) T5ASSIN" where
  "gen_model =
     \<lparr>self_hparams = stub_hparams ''gen'' 1, self_tokenizer = ''t5-small'', self_size = ''small'',
      self_t5 = Pretrained T5ForConditionalGeneration ''t5-small'',
      self_linear = None, self_loss = MSELoss,
      self_pearson_calculator = PearsonCalculator_init, self_training = False\<rparr>"

section \<open>Properties of the calculator\<close>

lemma array1_well_formed: "well_formed (array1 xs)"
  by (simp add: well_formed_def array1_def)

lemma call_fails_iff:
  "(\<exists>e. fst (PearsonCalculator_call s y_hat y) = Inl e) \<longleftrightarrow>
     \<not> (length (shape y_hat) = 1 \<and> length (shape y) = 1)"
  by (simp add: PearsonCalculator_call_def)

lemma observe_all_append:
  "list_all (\<lambda>(a, b). length (shape a) = 1 \<and> length (shape b) = 1) calls \<Longrightarrow>
   observe_all s calls =
     Inr (s\<lparr>self_y_hat := self_y_hat s @ concat (map (flat \<circ> fst) calls),
            self_y := self_y s @ concat (map (flat \<circ> snd) calls)\<rparr>)"
proof (induction calls arbitrary: s)
  case Nil
  show ?case by simp
next
  case (Cons c calls)
  obtain a b where c: "c = (a, b)" by (cases c)
  from Cons.prems c have one: "length (shape a) = 1" "length (shape b) = 1"
    and rest: "list_all (\<lambda>(a, b). length (shape a) = 1 \<and> length (shape b) = 1) calls"
    by simp_all
  show ?case
    using one by (simp add: c PearsonCalculator_call_def Cons.IH [OF rest])
qed


lemma calculate_pearson_short:
  "length (self_y s) < 2 \<Longrightarrow>
   calculate_pearson pearsonr s = (Inr NaN, s\<lparr>self_y_hat := [], self_y := []\<rparr>, [not_enough_samples])"
  by (simp add: calculate_pearson_def)

lemma calculate_pearson_returns:
  "calculate_pearson pearsonr s = (Inr r, s', lg) \<Longrightarrow> s' = s\<lparr>self_y_hat := [], self_y := []\<rparr>"
  by (auto simp: calculate_pearson_def split: if_splits sum.splits)

lemma calc_step_equal_length:
  assumes "length (self_y_hat s) = length (self_y s)"
    and "equal_lengths_given c"
  shows "length (self_y_hat (calc_step pearsonr s c)) = length (self_y (calc_step pearsonr s c))"
proof (cases c)
  case (Observe a b)
  with assms show ?thesis by (simp add: PearsonCalculator_call_def)
next
  case ComputeAndReset
  with assms(1) show ?thesis
    by (simp add: calculate_pearson_def split: sum.splits)
qed

text \<open>
  Claim C1, as the code has it.  \<open>__call__\<close> raises AssertionError, leaving both
  running sequences as they were, exactly when one of the two arrays is not
  one-dimensional.  Two one-dimensional arrays are always accepted and both appended,
  whatever their lengths: the code compares no lengths.
\<close>

theorem call_asserts_one_dimensional_only:
  "(\<not> (length (shape y_hat) = 1 \<and> length (shape y) = 1) \<longrightarrow>
      PearsonCalculator_call s y_hat y = (Inl (AssertionError []), s)) \<and>
   (length (shape y_hat) = 1 \<and> length (shape y) = 1 \<longrightarrow>
      PearsonCalculator_call s y_hat y =
        (Inr (), s\<lparr>self_y_hat := self_y_hat s @ flat y_hat, self_y := self_y s @ flat y\<rparr>))"
  by (simp add: PearsonCalculator_call_def)

theorem call_asserts_one_dimensional_only_witness:
  "PearsonCalculator_call PearsonCalculator_init
       (NDArray [2, 2] [Finite 1, Finite 2, Finite 3, Finite 4]) (array1 [Finite 1, Finite 2])
     = (Inl (AssertionError []), PearsonCalculator_init) \<and>
   PearsonCalculator_call PearsonCalculator_init
       (array1 [Finite 2, Finite 3]) (array1 [Finite 2.1, Finite 2.9])
     = (Inr (), \<lparr>self_y_hat = [Finite 2, Finite 3], self_y = [Finite 2.1, Finite 2.9]\<rparr>)"
  using call_asserts_one_dimensional_only
      [of "NDArray [2, 2] [Finite 1, Finite 2, Finite 3, Finite 4]" "array1 [Finite 1, Finite 2]"
          PearsonCalculator_init]
    call_asserts_one_dimensional_only
      [of "array1 [Finite 2, Finite 3]" "array1 [Finite 2.1, Finite 2.9]" PearsonCalculator_init]
  by (simp add: array1_def PearsonCalculator_init_def)

text \<open>
  Claim C1 fails as stated: a call with 3 predictions and 4 targets, both
  one-dimensional, raises nothing and appends both.
\<close>

theorem call_three_against_four_accepted:
  "PearsonCalculator_call PearsonCalculator_init
       (array1 [Finite 1, Finite 2, Finite 3]) (array1 [Finite 1, Finite 2, Finite 3, Finite 4])
     = (Inr (), \<lparr>self_y_hat = [Finite 1, Finite 2, Finite 3],
                  self_y = [Finite 1, Finite 2, Finite 3, Finite 4]\<rparr>)"
  by (simp add: PearsonCalculator_call_def array1_def PearsonCalculator_init_def)

text \<open>
  Claim C5.  For one-dimensional arrays fed in any number of calls (of equal length
  within each call), all calls succeed, and \<open>calculate_pearson\<close> then returns what it
  returns after one single call on the concatenated arrays; with at least two targets
  in all, that is \<open>pearsonr\<close> of the concatenated targets and the concatenated
  predictions, and both sequences are cleared.
\<close>

theorem calculate_pearson_of_concatenation:
  assumes "list_all (\<lambda>(a, b). length (shape a) = 1 \<and> length (shape b) = 1
                       \<and> length (flat a) = length (flat b)) calls"
  shows "\<exists>s s1. observe_all PearsonCalculator_init calls = Inr s \<and>
           observe_all PearsonCalculator_init
             [(array1 (concat (map (flat \<circ> fst) calls)), array1 (concat (map (flat \<circ> snd) calls)))] = Inr s1 \<and>
           calculate_pearson pearsonr s = calculate_pearson pearsonr s1 \<and>
           (2 \<le> length (concat (map (flat \<circ> snd) calls)) \<longrightarrow>
              fst (calculate_pearson pearsonr s) =
                pearsonr (concat (map (flat \<circ> snd) calls)) (concat (map (flat \<circ> fst) calls)))"
proof -
  let ?P = "concat (map (flat \<circ> fst) calls)"
  let ?T = "concat (map (flat \<circ> snd) calls)"
  let ?s = "\<lparr>self_y_hat = ?P, self_y = ?T\<rparr>"
  from assms have one: "list_all (\<lambda>(a, b). length (shape a) = 1 \<and> length (shape b) = 1) calls"
    by (auto simp: list_all_iff)
  have many: "observe_all PearsonCalculator_init calls = Inr ?s"
    by (simp add: observe_all_append [OF one] PearsonCalculator_init_def)
  have single: "observe_all PearsonCalculator_init [(array1 ?P, array1 ?T)] = Inr ?s"
    by (simp add: PearsonCalculator_call_def array1_def PearsonCalculator_init_def)
  have direct: "2 \<le> length ?T \<longrightarrow> fst (calculate_pearson pearsonr ?s) = pearsonr ?T ?P"
    by (simp add: calculate_pearson_def split: sum.splits)
  from many single direct show ?thesis by blast
qed

theorem calculate_pearson_of_concatenation_witness:
  "\<exists>s. observe_all PearsonCalculator_init
          [(array1 [Finite 2, Finite 3], array1 [Finite 2.1, Finite 2.9]),
           (array1 [Finite 4], array1 [Finite 4.2])] = Inr s \<and>
        fst (calculate_pearson pearsonr_exact s) =
          pearsonr_exact [Finite 2.1, Finite 2.9, Finite 4.2] [Finite 2, Finite 3, Finite 4]"
proof -
  let ?calls = "[(array1 [Finite 2, Finite 3], array1 [Finite 2.1, Finite 2.9]),
                 (array1 [Finite 4], array1 [Finite 4.2])]"
  have pre: "list_all (\<lambda>(a, b). length (shape a) = 1 \<and> length (shape b) = 1
                        \<and> length (flat a) = length (flat b)) ?calls"
    by (simp add: array1_def)
  have targets: "concat (map (flat \<circ> snd) ?calls) = [Finite 2.1, Finite 2.9, Finite 4.2]"
    and predictions: "concat (map (flat \<circ> fst) ?calls) = [Finite 2, Finite 3, Finite 4]"
    by (simp_all add: array1_def)
  from calculate_pearson_of_concatenation [OF pre, of pearsonr_exact]
  obtain s where "observe_all PearsonCalculator_init ?calls = Inr s"
    and "2 \<le> length (concat (map (flat \<circ> snd) ?calls)) \<longrightarrow>
           fst (calculate_pearson pearsonr_exact s) =
             pearsonr_exact (concat (map (flat \<circ> snd) ?calls)) (concat (map (flat \<circ> fst) ?calls))"
    by blast
  then show ?thesis unfolding targets predictions by auto
qed

text \<open>
  Claim C6, as the code has it.  With fewer than two accumulated targets
  \<open>calculate_pearson\<close> returns NaN, logs one warning and clears both sequences.
  Otherwise it calls \<open>pearsonr\<close> on the targets and the predictions: when \<open>pearsonr\<close>
  returns, its coefficient is returned and both sequences are cleared; when \<open>pearsonr\<close>
  raises, the exception is passed on, nothing is logged and both sequences are left as
  they were.  After every call that returns, an immediate second call returns NaN with
  the warning again.
\<close>

theorem calculate_pearson_clears_when_it_returns:
  "(length (self_y s) < 2 \<longrightarrow>
      calculate_pearson pearsonr s = (Inr NaN, s\<lparr>self_y_hat := [], self_y := []\<rparr>, [not_enough_samples])) \<and>
   (\<forall>r. 2 \<le> length (self_y s) \<and> pearsonr (self_y s) (self_y_hat s) = Inr r \<longrightarrow>
      calculate_pearson pearsonr s = (Inr r, s\<lparr>self_y_hat := [], self_y := []\<rparr>, [])) \<and>
   (\<forall>e. 2 \<le> length (self_y s) \<and> pearsonr (self_y s) (self_y_hat s) = Inl e \<longrightarrow>
      calculate_pearson pearsonr s = (Inl e, s, [])) \<and>
   (\<forall>r s' lg. calculate_pearson pearsonr s = (Inr r, s', lg) \<longrightarrow>
      self_y_hat s' = [] \<and> self_y s' = [] \<and>
      calculate_pearson pearsonr s' = (Inr NaN, s', [not_enough_samples]))"
proof (intro conjI allI impI)
  assume "length (self_y s) < 2"
  then show "calculate_pearson pearsonr s = (Inr NaN, s\<lparr>self_y_hat := [], self_y := []\<rparr>, [not_enough_samples])"
    by (rule calculate_pearson_short)
next
  fix r
  assume "2 \<le> length (self_y s) \<and> pearsonr (self_y s) (self_y_hat s) = Inr r"
  then show "calculate_pearson pearsonr s = (Inr r, s\<lparr>self_y_hat := [], self_y := []\<rparr>, [])"
    by (simp add: calculate_pearson_def)
next
  fix e
  assume "2 \<le> length (self_y s) \<and> pearsonr (self_y s) (self_y_hat s) = Inl e"
  then show "calculate_pearson pearsonr s = (Inl e, s, [])"
    by (simp add: calculate_pearson_def)
next
  fix r s' lg
  assume ret: "calculate_pearson pearsonr s = (Inr r, s', lg)"
  then have s': "s' = s\<lparr>self_y_hat := [], self_y := []\<rparr>"
    by (rule calculate_pearson_returns)
  then show "self_y_hat s' = []" and "self_y s' = []" by simp_all
  from s' show "calculate_pearson pearsonr s' = (Inr NaN, s', [not_enough_samples])"
    by (simp add: calculate_pearson_def)
qed

theorem calculate_pearson_clears_when_it_returns_witness:
  "calculate_pearson pearsonr_exact \<lparr>self_y_hat = [Finite 3], self_y = [Finite 3.5]\<rparr>
     = (Inr NaN, PearsonCalculator_init, [not_enough_samples]) \<and>
   calculate_pearson pearsonr_exact
       \<lparr>self_y_hat = [Finite 2, Finite 3, Finite 4], self_y = [Finite 2.1, Finite 2.9, Finite 4.2]\<rparr>
     = (Inr (pearson_r [2.1, 2.9, 4.2] [2, 3, 4]), PearsonCalculator_init, []) \<and>
   calculate_pearson pearsonr_exact
       \<lparr>self_y_hat = [Finite 2, Finite 3], self_y = [Finite 2.1, Finite 2.9, Finite 4.2]\<rparr>
     = (Inl (ValueError ''x and y must have the same length.''),
        \<lparr>self_y_hat = [Finite 2, Finite 3], self_y = [Finite 2.1, Finite 2.9, Finite 4.2]\<rparr>, []) \<and>
   calculate_pearson pearsonr_exact PearsonCalculator_init
     = (Inr NaN, PearsonCalculator_init, [not_enough_samples])"
proof -
  let ?one = "\<lparr>self_y_hat = [Finite 3], self_y = [Finite 3.5]\<rparr>"
  let ?three = "\<lparr>self_y_hat = [Finite 2, Finite 3, Finite 4], self_y = [Finite 2.1, Finite 2.9, Finite 4.2]\<rparr>"
  let ?odd = "\<lparr>self_y_hat = [Finite 2, Finite 3], self_y = [Finite 2.1, Finite 2.9, Finite 4.2]\<rparr>"
  have returns: "pearsonr_exact (self_y ?three) (self_y_hat ?three) = Inr (pearson_r [2.1, 2.9, 4.2] [2, 3, 4])"
    and raises: "pearsonr_exact (self_y ?odd) (self_y_hat ?odd) = Inl (ValueError ''x and y must have the same length.'')"
    by (simp_all add: pearsonr_exact_def)
  have first: "calculate_pearson pearsonr_exact ?one = (Inr NaN, PearsonCalculator_init, [not_enough_samples])"
    using calculate_pearson_clears_when_it_returns [of ?one pearsonr_exact]
    by (simp add: PearsonCalculator_init_def)
  have full: "calculate_pearson pearsonr_exact ?three
      = (Inr (pearson_r [2.1, 2.9, 4.2] [2, 3, 4]), PearsonCalculator_init, [])"
    using calculate_pearson_clears_when_it_returns [of ?three pearsonr_exact] returns
    by (simp add: PearsonCalculator_init_def)
  have odd: "calculate_pearson pearsonr_exact ?odd
      = (Inl (ValueError ''x and y must have the same length.''), ?odd, [])"
    using calculate_pearson_clears_when_it_returns [of ?odd pearsonr_exact] raises
    by simp
  have again: "calculate_pearson pearsonr_exact PearsonCalculator_init
      = (Inr NaN, PearsonCalculator_init, [not_enough_samples])"
    using calculate_pearson_clears_when_it_returns [of ?three pearsonr_exact] full
    by (simp add: PearsonCalculator_init_def)
  from first full odd again show ?thesis by simp
qed

text \<open>
  Claim C6 fails as stated: not every call clears the sequences.  After the call with
  3 predictions and 4 targets, which \<open>__call__\<close> accepts, \<open>pearsonr\<close> refuses the
  sequences of different lengths; the exception leaves \<open>calculate_pearson\<close> before the
  two assignments, and both sequences stay as they were.
\<close>

theorem calculate_pearson_raise_skips_reset:
  "PearsonCalculator_call PearsonCalculator_init
       (array1 [Finite 1, Finite 2, Finite 3]) (array1 [Finite 1, Finite 2, Finite 3, Finite 4])
     = (Inr (), \<lparr>self_y_hat = [Finite 1, Finite 2, Finite 3],
                  self_y = [Finite 1, Finite 2, Finite 3, Finite 4]\<rparr>) \<and>
   calculate_pearson pearsonr_exact
       \<lparr>self_y_hat = [Finite 1, Finite 2, Finite 3], self_y = [Finite 1, Finite 2, Finite 3, Finite 4]\<rparr>
     = (Inl (ValueError ''x and y must have the same length.''),
        \<lparr>self_y_hat = [Finite 1, Finite 2, Finite 3], self_y = [Finite 1, Finite 2, Finite 3, Finite 4]\<rparr>,
        [])"
  by (simp add: PearsonCalculator_call_def array1_def PearsonCalculator_init_def
      calculate_pearson_def pearsonr_exact_def)

text \<open>
  Claim C7, as the code has it.  From two sequences of equal length, any sequence of
  operations leaves the two sequences with equal length, provided that every
  \<open>__call__\<close> on two one-dimensional arrays is given arrays with equally many
  elements.  (A call on an array that is not one-dimensional raises and appends
  nothing.)
\<close>

theorem equal_length_preserved:
  assumes "length (self_y_hat s) = length (self_y s)"
    and "list_all equal_lengths_given ops"
  shows "length (self_y_hat (calc_run pearsonr s ops)) = length (self_y (calc_run pearsonr s ops))"
  using assms unfolding calc_run_def
proof (induction ops arbitrary: s)
  case Nil
  then show ?case by simp
next
  case (Cons c ops)
  from Cons.prems have "length (self_y_hat (calc_step pearsonr s c)) = length (self_y (calc_step pearsonr s c))"
    by (intro calc_step_equal_length) simp_all
  moreover from Cons.prems have "list_all equal_lengths_given ops"
    by simp
  ultimately show ?case by (simp add: Cons.IH)
qed

theorem equal_length_preserved_witness:
  "list_all equal_lengths_given
     [Observe (array1 [Finite 2, Finite 3]) (array1 [Finite 2.1, Finite 2.9]),
      Observe (NDArray [2, 1] [Finite 1, Finite 2]) (array1 [Finite 1]),
      ComputeAndReset,
      Observe (array1 [Finite 4]) (array1 [Finite 4.2])] \<and>
   length (self_y_hat (calc_run pearsonr_exact PearsonCalculator_init
     [Observe (array1 [Finite 2, Finite 3]) (array1 [Finite 2.1, Finite 2.9]),
      Observe (NDArray [2, 1] [Finite 1, Finite 2]) (array1 [Finite 1]),
      ComputeAndReset,
      Observe (array1 [Finite 4]) (array1 [Finite 4.2])])) = 1"
proof -
  let ?ops = "[Observe (array1 [Finite 2, Finite 3]) (array1 [Finite 2.1, Finite 2.9]),
               Observe (NDArray [2, 1] [Finite 1, Finite 2]) (array1 [Finite 1]),
               ComputeAndReset,
               Observe (array1 [Finite 4]) (array1 [Finite 4.2])]"
  have given: "list_all equal_lengths_given ?ops"
    by (simp add: array1_def)
  have start: "length (self_y_hat PearsonCalculator_init) = length (self_y PearsonCalculator_init)"
    by (simp add: PearsonCalculator_init_def)
  have targets: "self_y (calc_run pearsonr_exact PearsonCalculator_init ?ops) = [Finite 4.2]"
    by (simp add: calc_run_def PearsonCalculator_call_def calculate_pearson_def pearsonr_exact_def
        array1_def PearsonCalculator_init_def)
  from equal_length_preserved [OF start given, of pearsonr_exact] targets
  have "length (self_y_hat (calc_run pearsonr_exact PearsonCalculator_init ?ops)) = 1"
    by simp
  with given show ?thesis by (rule conjI)
qed

text \<open>
  Claim C7 fails as stated: one call with 3 predictions and 4 targets leaves sequences
  of lengths 3 and 4.
\<close>

theorem equal_length_broken_by_call:
  "length (self_y_hat (calc_run pearsonr_exact PearsonCalculator_init
       [Observe (array1 [Finite 1, Finite 2, Finite 3]) (array1 [Finite 1, Finite 2, Finite 3, Finite 4])]))
     = 3 \<and>
   length (self_y (calc_run pearsonr_exact PearsonCalculator_init
       [Observe (array1 [Finite 1, Finite 2, Finite 3]) (array1 [Finite 1, Finite 2, Finite 3, Finite 4])]))
     = 4"
  by (simp add: calc_run_def PearsonCalculator_call_def array1_def PearsonCalculator_init_def)


section \<open>Properties of the decoding\<close>

named_theorems decode_defs

lemmas decode_eval [decode_defs] =
  decode_phrase_def str_split_def isspace_def float_def float_space_def to_float_def floatnumber_def
  digitpart_def
  digit_of_def exponent_def decimal_value_def digits_value_def ascii_lower_def float_gt_def

lemma scan_words_first:
  "scan_words ws =
     (case find (\<lambda>w. float w \<noteq> None) ws of
        None \<Rightarrow> None
      | Some w \<Rightarrow> Some (clamp (the (float w))))"
  by (induction ws) (auto simp: clamp_def split: option.splits)

lemma clamp_range: "number \<noteq> NaN \<Longrightarrow> in_score_range (clamp number)"
  by (cases number) (auto simp: clamp_def float_gt_def)

lemma clamp_NaN: "clamp NaN = NaN"
  by (simp add: clamp_def float_gt_def)

lemma decode_phrase_cases:
  "decode_phrase phrase =
     (case find (\<lambda>w. float w \<noteq> None) (str_split phrase) of
        None \<Rightarrow> Finite 0
      | Some w \<Rightarrow> clamp (the (float w)))"
  by (simp add: decode_phrase_def scan_words_first split: option.splits)

lemma decode_phrase_range:
  "find (\<lambda>w. float w \<noteq> None) (str_split phrase) = Some w \<Longrightarrow> float w \<noteq> Some NaN \<Longrightarrow>
   in_score_range (decode_phrase phrase)"
proof -
  assume f: "find (\<lambda>w. float w \<noteq> None) (str_split phrase) = Some w" and n: "float w \<noteq> Some NaN"
  from f have "float w \<noteq> None" by (auto simp: find_Some_iff)
  with n have "the (float w) \<noteq> NaN" by auto
  with f show ?thesis by (simp add: decode_phrase_cases clamp_range)
qed

text \<open>
  The loop over the phrases of a batch fills \<open>y_hat\<close> with the decoded value of each
  phrase.
\<close>

lemma fill_y_hat_from:
  "length y_hat = k + length phrases \<Longrightarrow> (\<forall>i. k \<le> i \<and> i < length y_hat \<longrightarrow> y_hat ! i = Finite 0) \<Longrightarrow>
   fill_y_hat y_hat k phrases = Inr (take k y_hat @ map decode_phrase phrases)"
proof (induction phrases arbitrary: y_hat k)
  case Nil
  then show ?case by simp
next
  case (Cons phrase rest)
  from Cons.prems have k: "k < length y_hat" and zero: "y_hat ! k = Finite 0" by simp_all
  show ?case
  proof (cases "scan_words (str_split phrase)")
    case None
    have "fill_y_hat y_hat (Suc k) rest = Inr (take (Suc k) y_hat @ map decode_phrase rest)"
      using Cons.prems by (intro Cons.IH) simp_all
    with None k zero show ?thesis
      by (simp add: decode_phrase_def take_Suc_conv_app_nth)
  next
    case (Some number)
    have "fill_y_hat (y_hat[k := number]) (Suc k) rest
        = Inr (take (Suc k) (y_hat[k := number]) @ map decode_phrase rest)"
      using Cons.prems by (intro Cons.IH) simp_all
    with Some k show ?thesis
      by (simp add: decode_phrase_def take_Suc_conv_app_nth)
  qed
qed

lemma fill_y_hat_decode:
  "fill_y_hat (replicate (length phrases) (Finite 0)) 0 phrases = Inr (map decode_phrase phrases)"
  using fill_y_hat_from [of "replicate (length phrases) (Finite 0)" 0 phrases] by simp

text \<open>The examples of the specification.\<close>

lemma decode_examples:
  "decode_phrase ''3.2 points'' = Finite 3.2"
  "decode_phrase ''7.9'' = Finite 5.0"
  "decode_phrase ''0.1'' = Finite 1.0"
  "decode_phrase ''no numbers here'' = Finite 0.0"
  by (simp_all add: decode_defs)

text \<open>
  Claim C4.  The decoder returns the first word that \<open>float()\<close> accepts, clamped into
  the range from 1.0 to 5.0, and 0.0 when there is none: so it does whenever that word
  is not a NaN (\<open>decode_phrase_cases\<close>, \<open>decode_phrase_range\<close>).  On the phrase
  \<open>nan\<close> the code returns NaN, which is not in the range: \<open>float()\<close> accepts the
  word and neither comparison of the clamp holds for NaN.  The loop of
  \<open>validation_step\<close> writes that NaN into \<open>y_hat\<close>.
\<close>

theorem decode_nan_not_clamped:
  "decode_phrase ''nan'' = NaN \<and> \<not> in_score_range (decode_phrase ''nan'') \<and>
   decode_phrase ''nan'' \<noteq> Finite 0.0 \<and>
   fill_y_hat [Finite 0] 0 [''nan''] = Inr [NaN]"
  by (simp add: decode_defs)

text \<open>
  Claim C9.  There is a phrase whose first word accepted by \<open>float()\<close> is \<open>nan\<close>;
  \<open>float()\<close> parses that word to NaN, NaN is neither greater than 5.0 nor less than
  1.0, and the decoded value is NaN: not the fallback 0.0 and not a value from 1.0 to
  5.0.  The loop of \<open>validation_step\<close> writes that NaN into \<open>y_hat\<close>.
\<close>

theorem decode_produces_nan:
  "\<exists>phrase. find (\<lambda>w. float w \<noteq> None) (str_split phrase) = Some ''nan'' \<and>
     float ''nan'' = Some NaN \<and>
     \<not> float_gt NaN (Finite 5.0) \<and> \<not> float_lt NaN (Finite 1.0) \<and>
     decode_phrase phrase = NaN \<and> decode_phrase phrase \<noteq> Finite 0.0 \<and>
     \<not> in_score_range (decode_phrase phrase) \<and>
     fill_y_hat [Finite 0] 0 [phrase] = Inr [NaN]"
proof -
  have "find (\<lambda>w. float w \<noteq> None) (str_split ''score nan 3.0'') = Some ''nan''"
    by (simp add: decode_defs)
  moreover have "float ''nan'' = Some NaN"
    by (simp add: decode_defs)
  moreover have "decode_phrase ''score nan 3.0'' = NaN"
    by (simp add: decode_defs)
  moreover have "fill_y_hat [Finite 0] 0 [''score nan 3.0''] = Inr [NaN]"
    by (simp add: decode_defs)
  ultimately show ?thesis
    by (intro exI [of _ "''score nan 3.0''"]) (simp add: float_gt_def)
qed

section \<open>Properties of the construction\<close>

lemma and_then_Inr: "and_then r f = Inr y \<longleftrightarrow> (\<exists>x. r = Inr x \<and> f x = Inr y)"
  by (cases r) (simp_all add: and_then_def)

lemma load_pretrained_class:
  "load_pretrained lib h = Inr (tok, sz, cls, net) \<Longrightarrow>
   cls = (if architecture h \<in> set [''gen'', ''categoric_gen''] then T5ForConditionalGeneration else T5Model)"
  by (auto simp: load_pretrained_def and_then_Inr Let_def)

lemma stub_load:
  "a \<notin> set [''gen'', ''categoric_gen''] \<Longrightarrow>
   load_pretrained stub_library (stub_hparams a n) = Inr (''t5-small'', ''small'', T5Model, ''t5-small'')"
  by (simp add: load_pretrained_def stub_library_def stub_hparams_def and_then_def detect_size_def split_on_def)

lemma stub_Linear:
  "nn_Linear stub_library (d_model stub_library net) 3 = Inr \<lparr>weight = [[0, 0], [0, 0], [0, 0]], bias = [0, 0, 0]\<rparr>"
  "nn_Linear stub_library (d_model stub_library net) 1 = Inr \<lparr>weight = [[0, 0]], bias = [0]\<rparr>"
  by (simp_all add: stub_library_def numeral_2_eq_2 numeral_3_eq_3)

lemma init_sets_empty_calculator:
  "T5ASSIN_init lib h = Inr m \<Longrightarrow>
   self_hparams m = h \<and> self_pearson_calculator m = PearsonCalculator_init \<and> self_training m"
  by (auto simp: T5ASSIN_init_def and_then_Inr Let_def split: prod.splits)

text \<open>
  Claim C2, as the code has it.  An architecture string that is none of \<open>mlp\<close>,
  \<open>categoric\<close>, \<open>gen\<close> and \<open>categoric_gen\<close> is not refused: whenever the
  pretrained network loads and the linear layer can be built, \<open>__init__\<close> returns the
  model of the similarity regression, with a \<open>T5Model\<close>, a linear head of one output
  and the mean squared error.
\<close>

theorem unknown_architecture_is_similarity:
  assumes "architecture h \<notin> set [''mlp'', ''categoric'', ''gen'', ''categoric_gen'']"
    and "load_pretrained lib h = Inr (tok, sz, cls, net)"
    and "nn_Linear lib (d_model lib net) 1 = Inr l"
  shows "T5ASSIN_init lib h =
           Inr \<lparr>self_hparams = h, self_tokenizer = tok, self_size = sz,
                self_t5 = Pretrained T5Model net, self_linear = Some l, self_loss = MSELoss,
                self_pearson_calculator = PearsonCalculator_init, self_training = True\<rparr>"
proof -
  from assms(1,2) have "cls = T5Model"
    using load_pretrained_class [of lib h tok sz cls net] by simp
  with assms show ?thesis
    by (simp add: T5ASSIN_init_def and_then_def)
qed

theorem unknown_architecture_is_similarity_witness:
  "T5ASSIN_init stub_library (stub_hparams ''similarity'' 1) =
     Inr \<lparr>self_hparams = stub_hparams ''similarity'' 1, self_tokenizer = ''t5-small'', self_size = ''small'',
          self_t5 = Pretrained T5Model ''t5-small'',
          self_linear = Some \<lparr>weight = [[0, 0]], bias = [0]\<rparr>, self_loss = MSELoss,
          self_pearson_calculator = PearsonCalculator_init, self_training = True\<rparr>"
proof -
  have "architecture (stub_hparams ''similarity'' 1) \<notin> set [''mlp'', ''categoric'', ''gen'', ''categoric_gen'']"
    by (simp add: stub_hparams_def)
  moreover have "load_pretrained stub_library (stub_hparams ''similarity'' 1)
      = Inr (''t5-small'', ''small'', T5Model, ''t5-small'')"
    by (simp add: stub_load)
  ultimately show ?thesis
    using stub_Linear(2) [of "''t5-small''"] by (rule unknown_architecture_is_similarity)
qed

text \<open>
  Claim C2 fails as stated: with the architecture \<open>bogus\<close> the construction returns a
  model.
\<close>

theorem bogus_architecture_constructs:
  "T5ASSIN_init stub_library (stub_hparams ''bogus'' 1) =
     Inr \<lparr>self_hparams = stub_hparams ''bogus'' 1, self_tokenizer = ''t5-small'', self_size = ''small'',
          self_t5 = Pretrained T5Model ''t5-small'',
          self_linear = Some \<lparr>weight = [[0, 0]], bias = [0]\<rparr>, self_loss = MSELoss,
          self_pearson_calculator = PearsonCalculator_init, self_training = True\<rparr>"
  by (simp add: T5ASSIN_init_def load_pretrained_def stub_library_def stub_hparams_def and_then_def
      detect_size_def split_on_def numeral_2_eq_2)

text \<open>
  Claim C8.  With the architecture \<open>categoric\<close> and \<open>nout = 1\<close> the construction
  always fails, and with the assertion's error whenever the loading before it succeeds.
  With any other \<open>nout\<close>, such as 3, it returns the model with a head of \<open>nout\<close>
  outputs and the cross entropy, whenever the network loads and the layer can be built.
\<close>

theorem categoric_single_class_rejected:
  "(architecture h = ''categoric'' \<and> nout h = 1 \<longrightarrow>
      (\<exists>e. T5ASSIN_init lib h = Inl e) \<and>
      (\<forall>loaded. load_pretrained lib h = Inr loaded \<longrightarrow>
         T5ASSIN_init lib h =
           Inl (AssertionError ''Categoric mode with 1 nout doesn't work with CrossEntropyLoss''))) \<and>
   (architecture h = ''categoric'' \<and> nout h \<noteq> 1 \<and>
    load_pretrained lib h = Inr (tok, sz, cls, net) \<and>
    nn_Linear lib (d_model lib net) (nout h) = Inr l \<longrightarrow>
      T5ASSIN_init lib h =
        Inr \<lparr>self_hparams = h, self_tokenizer = tok, self_size = sz,
             self_t5 = Pretrained T5Model net, self_linear = Some l, self_loss = CrossEntropyLoss,
             self_pearson_calculator = PearsonCalculator_init, self_training = True\<rparr>)"
proof (intro conjI impI allI)
  assume a: "architecture h = ''categoric'' \<and> nout h = 1"
  show "\<exists>e. T5ASSIN_init lib h = Inl e"
  proof (cases "load_pretrained lib h")
    case (Inl e)
    then show ?thesis by (simp add: T5ASSIN_init_def and_then_def)
  next
    case (Inr loaded)
    with a show ?thesis
      by (cases loaded) (simp add: T5ASSIN_init_def and_then_def)
  qed
next
  fix loaded
  assume a: "architecture h = ''categoric'' \<and> nout h = 1"
    and "load_pretrained lib h = Inr loaded"
  then show "T5ASSIN_init lib h =
      Inl (AssertionError ''Categoric mode with 1 nout doesn't work with CrossEntropyLoss'')"
    by (cases loaded) (simp add: T5ASSIN_init_def and_then_def)
next
  assume a: "architecture h = ''categoric'' \<and> nout h \<noteq> 1 \<and>
    load_pretrained lib h = Inr (tok, sz, cls, net) \<and>
    nn_Linear lib (d_model lib net) (nout h) = Inr l"
  then have "cls = T5Model"
    using load_pretrained_class [of lib h tok sz cls net] by simp
  with a show "T5ASSIN_init lib h =
        Inr \<lparr>self_hparams = h, self_tokenizer = tok, self_size = sz,
             self_t5 = Pretrained T5Model net, self_linear = Some l, self_loss = CrossEntropyLoss,
             self_pearson_calculator = PearsonCalculator_init, self_training = True\<rparr>"
    by (simp add: T5ASSIN_init_def and_then_def)
qed

theorem categoric_single_class_rejected_witness:
  "T5ASSIN_init stub_library (stub_hparams ''categoric'' 1) =
     Inl (AssertionError ''Categoric mode with 1 nout doesn't work with CrossEntropyLoss'') \<and>
   T5ASSIN_init stub_library (stub_hparams ''categoric'' 3) =
     Inr \<lparr>self_hparams = stub_hparams ''categoric'' 3, self_tokenizer = ''t5-small'', self_size = ''small'',
          self_t5 = Pretrained T5Model ''t5-small'',
          self_linear = Some \<lparr>weight = [[0, 0], [0, 0], [0, 0]], bias = [0, 0, 0]\<rparr>,
          self_loss = CrossEntropyLoss,
          self_pearson_calculator = PearsonCalculator_init, self_training = True\<rparr>"
proof -
  have load1: "load_pretrained stub_library (stub_hparams ''categoric'' 1)
      = Inr (''t5-small'', ''small'', T5Model, ''t5-small'')"
    and load3: "load_pretrained stub_library (stub_hparams ''categoric'' 3)
      = Inr (''t5-small'', ''small'', T5Model, ''t5-small'')"
    by (simp_all add: stub_load)
  have one: "architecture (stub_hparams ''categoric'' 1) = ''categoric'' \<and> nout (stub_hparams ''categoric'' 1) = 1"
    and three: "architecture (stub_hparams ''categoric'' 3) = ''categoric'' \<and> nout (stub_hparams ''categoric'' 3) \<noteq> 1"
    and n3: "nout (stub_hparams ''categoric'' 3) = 3"
    by (simp_all add: stub_hparams_def)
  from categoric_single_class_rejected [of "stub_hparams ''categoric'' 1" stub_library] one load1
  have first: "T5ASSIN_init stub_library (stub_hparams ''categoric'' 1) =
     Inl (AssertionError ''Categoric mode with 1 nout doesn't work with CrossEntropyLoss'')"
    by blast
  from categoric_single_class_rejected
      [of "stub_hparams ''categoric'' 3" stub_library "''t5-small''" "''small''" T5Model "''t5-small''"
          "\<lparr>weight = [[0, 0], [0, 0], [0, 0]], bias = [0, 0, 0]\<rparr>"]
    three load3 stub_Linear(1) [of "''t5-small''"]
  have second: "T5ASSIN_init stub_library (stub_hparams ''categoric'' 3) =
     Inr \<lparr>self_hparams = stub_hparams ''categoric'' 3, self_tokenizer = ''t5-small'', self_size = ''small'',
          self_t5 = Pretrained T5Model ''t5-small'',
          self_linear = Some \<lparr>weight = [[0, 0], [0, 0], [0, 0]], bias = [0, 0, 0]\<rparr>,
          self_loss = CrossEntropyLoss,
          self_pearson_calculator = PearsonCalculator_init, self_training = True\<rparr>"
    by (simp only: n3) blast
  from first second show ?thesis by (rule conjI)
qed

section \<open>Properties of the forward pass\<close>

lemma sigmoid_bounds: "0 < sigmoid v" "sigmoid v < 1"
  by (simp_all add: sigmoid_def add_pos_pos)

lemma map_all_Inr:
  "map_all f xs = Inr ys \<Longrightarrow> length ys = length xs \<and> (\<forall>i<length xs. f (xs ! i) = Inr (ys ! i))"
proof (induction xs arbitrary: ys)
  case Nil
  then show ?case by simp
next
  case (Cons x xs)
  then obtain v vs where "f x = Inr v" "map_all f xs = Inr vs" "ys = v # vs"
    by (auto split: sum.splits)
  with Cons.IH [of vs] show ?case
    by (auto simp: nth_Cons split: nat.splits)
qed

lemma NONLinearInput_forward_range:
  assumes "NONLinearInput_forward train keep net x = Inr h"
  shows "\<forall>v\<in>set h. 1 \<le> v \<and> v \<le> 5"
proof -
  from assms obtain pre where "h = map (\<lambda>v. 1 + sigmoid v * 4) pre"
    by (auto simp: NONLinearInput_forward_def and_then_Inr)
  moreover have "1 \<le> 1 + sigmoid v * 4 \<and> 1 + sigmoid v * 4 \<le> 5" for v
    using sigmoid_bounds [of v] by simp
  ultimately show ?thesis by auto
qed

lemma Linear_forward_length:
  "Linear_forward lin x = Inr out \<Longrightarrow> length out = length (weight lin)"
  by (auto simp: Linear_forward_def split: if_splits)

text \<open>
  What a forward pass in \<open>mlp\<close> mode computes, for any head: the features of the
  \<open>NONLinearInput\<close>, each from 1 to 5, and then the head applied to them.
\<close>

lemma mlp_forward_features:
  assumes "architecture (self_hparams m) = ''mlp''"
    and "self_t5 m = NONLinearInput net"
    and "self_linear m = Some lin"
    and "forward rt m b = Inr out"
  shows "\<exists>features scores.
           map_all (\<lambda>(n, x). NONLinearInput_forward (self_training m) (dropout_keep rt n) net x)
             (enumerate 0 (input_ids b)) = Inr features \<and>
           (\<forall>row\<in>set features. \<forall>v\<in>set row. 1 \<le> v \<and> v \<le> 5) \<and>
           map_all (Linear_forward lin) features = Inr scores \<and>
           length scores = length (input_ids b) \<and>
           (\<forall>row\<in>set scores. length row = length (weight lin)) \<and>
           out = Tensor (matrix scores (length (weight lin)))"
proof -
  let ?f = "\<lambda>(n, x). NONLinearInput_forward (self_training m) (dropout_keep rt n) net x"
  from assms obtain features scores where
    features: "map_all ?f (enumerate 0 (input_ids b)) = Inr features"
    and scores: "map_all (Linear_forward lin) features = Inr scores"
    and out: "out = Tensor (matrix scores (length (weight lin)))"
    by (auto simp: forward_def apply_head_def and_then_Inr)
  from map_all_Inr [OF features]
  have len_f: "length features = length (input_ids b)"
    and each_f: "\<forall>i<length (input_ids b). ?f (enumerate 0 (input_ids b) ! i) = Inr (features ! i)"
    by simp_all
  have range: "\<forall>row\<in>set features. \<forall>v\<in>set row. 1 \<le> v \<and> v \<le> 5"
  proof
    fix row assume "row \<in> set features"
    then obtain i where i: "i < length features" "row = features ! i"
      by (auto simp: in_set_conv_nth)
    with len_f each_f have "NONLinearInput_forward (self_training m) (dropout_keep rt i) net (input_ids b ! i) = Inr row"
      by (simp add: nth_enumerate_eq)
    then show "\<forall>v\<in>set row. 1 \<le> v \<and> v \<le> 5" by (rule NONLinearInput_forward_range)
  qed
  from map_all_Inr [OF scores]
  have len_s: "length scores = length features"
    and each_s: "\<forall>i<length features. Linear_forward lin (features ! i) = Inr (scores ! i)"
    by simp_all
  have width: "\<forall>row\<in>set scores. length row = length (weight lin)"
  proof
    fix row assume "row \<in> set scores"
    then obtain i where "i < length scores" "row = scores ! i"
      by (auto simp: in_set_conv_nth)
    with len_s each_s show "length row = length (weight lin)"
      by (auto intro: Linear_forward_length)
  qed
  from features range scores len_s len_f width out show ?thesis by auto
qed

lemma mlp_model_forward:
  "forward stub_runtime mlp_model stub_batch = Inr (Tensor (NDArray [2, 1] [Finite 6, Finite 6]))"
  by (simp add: forward_def mlp_model_def stub_hparams_def stub_batch_def apply_head_def and_then_def
      NONLinearInput_forward_def Linear_forward_def Dropout_def ReLU_def sigmoid_def matrix_def
      stub_runtime_def enumerate_eq_zip)

lemma init_mlp_layout:
  assumes "T5ASSIN_init lib h = Inr m0"
    and "architecture h = ''mlp''"
    and "\<forall>nin nout l. nn_Linear lib nin nout = Inr l \<longrightarrow> length (weight l) = nat nout"
  shows "mlp_layout m0"
proof -
  from assms(1,2) obtain tok sz cls net l1 l where
    "nn_Linear lib (d_model lib net) 1 = Inr l"
    and m0: "m0 = \<lparr>self_hparams = h, self_tokenizer = tok, self_size = sz, self_t5 = NONLinearInput l1,
                   self_linear = Some l, self_loss = MSELoss,
                   self_pearson_calculator = PearsonCalculator_init, self_training = True\<rparr>"
    by (auto simp: T5ASSIN_init_def and_then_Inr Let_def split: prod.splits)
  with assms(3) have "length (weight l) = 1" by fastforce
  with m0 assms(2) show ?thesis by (simp add: mlp_layout_def)
qed

lemma singleton_rows:
  "\<forall>row\<in>set rows. length row = 1 \<Longrightarrow> rows = map (\<lambda>y. [y]) (concat rows)"
proof (induction rows)
  case Nil
  show ?case by simp
next
  case (Cons row rows)
  then obtain y where "row = [y]" by (cases row) auto
  with Cons show ?case by simp
qed

text \<open>
  Claim C3, as the code has it.  The model that \<open>__init__\<close> builds in \<open>mlp\<close> mode has
  a \<open>NONLinearInput\<close> and a linear head of one output (given that \<open>nn.Linear\<close>
  returns a layer with as many outputs as it is asked for).  For every model with
  these layers, whatever their parameters, a forward pass that returns has computed
  for each example the features \<open>1 + 4 * sigmoid(.)\<close> of the \<open>NONLinearInput\<close>, each
  from 1 to 5, and returns one scalar for each example, a tensor of shape (batch, 1):
  the linear head applied to the features of the example.
\<close>

theorem mlp_forward_scalar_per_example:
  "(T5ASSIN_init lib h = Inr m0 \<and> architecture h = ''mlp'' \<and>
    (\<forall>nin nout l. nn_Linear lib nin nout = Inr l \<longrightarrow> length (weight l) = nat nout)
      \<longrightarrow> mlp_layout m0) \<and>
   (mlp_layout m \<and> forward rt m b = Inr out \<longrightarrow>
      (\<exists>net lin features ys.
         self_t5 m = NONLinearInput net \<and> self_linear m = Some lin \<and>
         map_all (\<lambda>(n, x). NONLinearInput_forward (self_training m) (dropout_keep rt n) net x)
           (enumerate 0 (input_ids b)) = Inr features \<and>
         (\<forall>row\<in>set features. \<forall>v\<in>set row. 1 \<le> v \<and> v \<le> 5) \<and>
         map_all (Linear_forward lin) features = Inr (map (\<lambda>y. [y]) ys) \<and>
         length ys = length (input_ids b) \<and>
         out = Tensor (NDArray [length (input_ids b), 1] (map Finite ys))))"
proof (intro conjI impI)
  assume "T5ASSIN_init lib h = Inr m0 \<and> architecture h = ''mlp'' \<and>
    (\<forall>nin nout l. nn_Linear lib nin nout = Inr l \<longrightarrow> length (weight l) = nat nout)"
  then show "mlp_layout m0" using init_mlp_layout [of lib h m0] by blast
next
  assume a: "mlp_layout m \<and> forward rt m b = Inr out"
  then obtain net lin where arch: "architecture (self_hparams m) = ''mlp''"
    and net: "self_t5 m = NONLinearInput net"
    and lin: "self_linear m = Some lin" and one: "length (weight lin) = 1"
    by (auto simp: mlp_layout_def split: backbone.splits option.splits)
  from a have fwd: "forward rt m b = Inr out" by simp
  from mlp_forward_features [OF arch net lin fwd] one
  obtain features scores where
    features: "map_all (\<lambda>(n, x). NONLinearInput_forward (self_training m) (dropout_keep rt n) net x)
             (enumerate 0 (input_ids b)) = Inr features"
    and range: "\<forall>row\<in>set features. \<forall>v\<in>set row. 1 \<le> v \<and> v \<le> 5"
    and scores: "map_all (Linear_forward lin) features = Inr scores"
    and len: "length scores = length (input_ids b)"
    and width: "\<forall>row\<in>set scores. length row = 1"
    and out: "out = Tensor (matrix scores 1)"
    by auto
  let ?ys = "concat scores"
  from width have rows: "scores = map (\<lambda>y. [y]) ?ys" by (rule singleton_rows)
  then have "length scores = length ?ys" by (metis length_map)
  with len have len_ys: "length ?ys = length (input_ids b)" by simp
  from out len have out': "out = Tensor (NDArray [length (input_ids b), 1] (map Finite ?ys))"
    by (simp add: matrix_def)
  from scores rows have scores': "map_all (Linear_forward lin) features = Inr (map (\<lambda>y. [y]) ?ys)"
    by simp
  from net lin features range scores' len_ys out'
  show "\<exists>net lin features ys.
         self_t5 m = NONLinearInput net \<and> self_linear m = Some lin \<and>
         map_all (\<lambda>(n, x). NONLinearInput_forward (self_training m) (dropout_keep rt n) net x)
           (enumerate 0 (input_ids b)) = Inr features \<and>
         (\<forall>row\<in>set features. \<forall>v\<in>set row. 1 \<le> v \<and> v \<le> 5) \<and>
         map_all (Linear_forward lin) features = Inr (map (\<lambda>y. [y]) ys) \<and>
         length ys = length (input_ids b) \<and>
         out = Tensor (NDArray [length (input_ids b), 1] (map Finite ys))"
    by blast
qed

lemma stub_Linear_rows:
  "\<forall>nin nout l. nn_Linear stub_library nin nout = Inr l \<longrightarrow> length (weight l) = nat nout"
  by (auto simp: stub_library_def split: if_splits)

lemma mlp_constructed:
  "T5ASSIN_init stub_library (stub_hparams ''mlp'' 1) =
     Inr \<lparr>self_hparams = stub_hparams ''mlp'' 1, self_tokenizer = ''t5-small'', self_size = ''small'',
          self_t5 = NONLinearInput \<lparr>weight = [[0, 0, 0], [0, 0, 0]], bias = [0, 0]\<rparr>,
          self_linear = Some \<lparr>weight = [[0, 0]], bias = [0]\<rparr>, self_loss = MSELoss,
          self_pearson_calculator = PearsonCalculator_init, self_training = True\<rparr>"
  by (simp add: T5ASSIN_init_def load_pretrained_def stub_library_def stub_hparams_def and_then_def
      detect_size_def split_on_def numeral_2_eq_2 numeral_3_eq_3)

lemma mlp_model_layout: "mlp_layout mlp_model"
  by (simp add: mlp_layout_def mlp_model_def stub_hparams_def)

theorem mlp_forward_scalar_per_example_witness:
  "(\<exists>m0. T5ASSIN_init stub_library (stub_hparams ''mlp'' 1) = Inr m0 \<and> mlp_layout m0) \<and>
   (\<exists>features ys.
      map_all (\<lambda>(n, x). NONLinearInput_forward False (\<lambda>i. True)
                 \<lparr>weight = [[0, 0, 0], [0, 0, 0]], bias = [0, 0]\<rparr> x)
        (enumerate 0 [[7, 1, 0], [0, 2, 5]]) = Inr features \<and>
      (\<forall>row\<in>set features. \<forall>v\<in>set row. 1 \<le> v \<and> v \<le> 5) \<and>
      map_all (Linear_forward \<lparr>weight = [[1, 1]], bias = [0]\<rparr>) features = Inr (map (\<lambda>y. [y]) ys) \<and>
      length ys = 2 \<and>
      [Finite 6, Finite 6] = map Finite ys)"
proof -
  have arch: "architecture (stub_hparams ''mlp'' 1) = ''mlp''"
    by (simp add: stub_hparams_def)
  from mlp_forward_scalar_per_example
      [of stub_library "stub_hparams ''mlp'' 1" _ mlp_model stub_runtime stub_batch
          "Tensor (NDArray [2, 1] [Finite 6, Finite 6])"]
    mlp_constructed arch stub_Linear_rows
  have built: "\<exists>m0. T5ASSIN_init stub_library (stub_hparams ''mlp'' 1) = Inr m0 \<and> mlp_layout m0"
    by blast
  have pre: "mlp_layout mlp_model \<and>
      forward stub_runtime mlp_model stub_batch = Inr (Tensor (NDArray [2, 1] [Finite 6, Finite 6]))"
    using mlp_model_layout mlp_model_forward by (rule conjI)
  have "mlp_layout mlp_model \<and>
      forward stub_runtime mlp_model stub_batch = Inr (Tensor (NDArray [2, 1] [Finite 6, Finite 6])) \<longrightarrow>
      (\<exists>net lin features ys.
         self_t5 mlp_model = NONLinearInput net \<and> self_linear mlp_model = Some lin \<and>
         map_all (\<lambda>(n, x). NONLinearInput_forward (self_training mlp_model) (dropout_keep stub_runtime n) net x)
           (enumerate 0 (input_ids stub_batch)) = Inr features \<and>
         (\<forall>row\<in>set features. \<forall>v\<in>set row. 1 \<le> v \<and> v \<le> 5) \<and>
         map_all (Linear_forward lin) features = Inr (map (\<lambda>y. [y]) ys) \<and>
         length ys = length (input_ids stub_batch) \<and>
         Tensor (NDArray [2, 1] [Finite 6, Finite 6])
           = Tensor (NDArray [length (input_ids stub_batch), 1] (map Finite ys)))"
    using mlp_forward_scalar_per_example
      [of stub_library "stub_hparams ''mlp'' 1" mlp_model mlp_model stub_runtime stub_batch
          "Tensor (NDArray [2, 1] [Finite 6, Finite 6])"]
    by (rule conjunct2)
  from this pre have "\<exists>net lin features ys.
         self_t5 mlp_model = NONLinearInput net \<and> self_linear mlp_model = Some lin \<and>
         map_all (\<lambda>(n, x). NONLinearInput_forward (self_training mlp_model) (dropout_keep stub_runtime n) net x)
           (enumerate 0 (input_ids stub_batch)) = Inr features \<and>
         (\<forall>row\<in>set features. \<forall>v\<in>set row. 1 \<le> v \<and> v \<le> 5) \<and>
         map_all (Linear_forward lin) features = Inr (map (\<lambda>y. [y]) ys) \<and>
         length ys = length (input_ids stub_batch) \<and>
         Tensor (NDArray [2, 1] [Finite 6, Finite 6])
           = Tensor (NDArray [length (input_ids stub_batch), 1] (map Finite ys))"
    by (rule mp)
  then have "\<exists>features ys.
      map_all (\<lambda>(n, x). NONLinearInput_forward False (\<lambda>i. True)
                 \<lparr>weight = [[0, 0, 0], [0, 0, 0]], bias = [0, 0]\<rparr> x)
        (enumerate 0 [[7, 1, 0], [0, 2, 5]]) = Inr features \<and>
      (\<forall>row\<in>set features. \<forall>v\<in>set row. 1 \<le> v \<and> v \<le> 5) \<and>
      map_all (Linear_forward \<lparr>weight = [[1, 1]], bias = [0]\<rparr>) features = Inr (map (\<lambda>y. [y]) ys) \<and>
      length ys = 2 \<and>
      [Finite 6, Finite 6] = map Finite ys"
    by (simp add: mlp_model_def stub_runtime_def stub_batch_def numeral_2_eq_2)
  with built show ?thesis by (rule conjI)
qed

text \<open>
  Claim C3 fails as stated: a head of one output that adds up two features, each equal
  to 3, returns the score 6 for every example, outside the range from 1 to 5.
\<close>

theorem mlp_forward_outside_range:
  "mlp_layout mlp_model \<and>
   forward stub_runtime mlp_model stub_batch = Inr (Tensor (NDArray [2, 1] [Finite 6, Finite 6])) \<and>
   \<not> in_score_range (Finite 6)"
  by (simp add: mlp_layout_def forward_def mlp_model_def stub_hparams_def stub_batch_def apply_head_def
      and_then_def NONLinearInput_forward_def Linear_forward_def Dropout_def ReLU_def sigmoid_def
      matrix_def stub_runtime_def enumerate_eq_zip)

section \<open>Properties of the validation hooks\<close>

lemma gen_step_keeps_model:
  "architecture (self_hparams m) = ''gen'' \<Longrightarrow> snd (validation_step rt m b) = m"
  by (simp add: validation_step_def)

lemma gen_steps_keep_model:
  "architecture (self_hparams m) = ''gen'' \<Longrightarrow> snd (validation_steps rt m bs) = m"
proof (induction bs)
  case Nil
  show ?case by simp
next
  case (Cons b bs)
  from Cons.prems have step: "snd (validation_step rt m b) = m" by (rule gen_step_keeps_model)
  from Cons have steps: "snd (validation_steps rt m bs) = m" by simp
  show ?case
  proof (cases "validation_step rt m b")
    case (Pair r m')
    with step have m': "m' = m" by simp
    show ?thesis
    proof (cases r)
      case (Inl e)
      with Pair m' show ?thesis by simp
    next
      case (Inr out)
      with Pair m' steps show ?thesis
        by (cases "validation_steps rt m bs") (auto split: sum.splits)
    qed
  qed
qed

lemma gen_epoch_end_nan:
  assumes "architecture (self_hparams m) = ''gen''"
    and "self_pearson_calculator m = PearsonCalculator_init"
    and "validation_epoch_end rt m outputs = (Inr r, m', lg)"
  shows "map_of (result_log r) ''val_pearson'' = Some NaN \<and> m' = m \<and> lg = [not_enough_samples]"
proof -
  have pc: "calculate_pearson (scipy_pearsonr rt) (self_pearson_calculator m)
      = (Inr NaN, self_pearson_calculator m, [not_enough_samples])"
    using assms(2) by (simp add: calculate_pearson_def PearsonCalculator_init_def)
  from assms(1,3) show ?thesis
    by (auto simp: validation_epoch_end_def pc split: sum.splits)
qed

lemma gen_epoch_result:
  assumes "architecture (self_hparams m) = ''gen''"
    and "self_pearson_calculator m = PearsonCalculator_init"
    and "validation_epoch rt m bs = (Inr r, m', lg)"
  shows "map_of (result_log r) ''val_pearson'' = Some NaN \<and> m' = m"
proof -
  from assms(1) have keep: "snd (validation_steps rt m bs) = m" by (rule gen_steps_keep_model)
  from assms(3) obtain outputs where "validation_steps rt m bs = (Inr outputs, m)"
    and "validation_epoch_end rt m outputs = (Inr r, m', lg)"
    using keep by (cases "validation_steps rt m bs") (auto simp: validation_epoch_def split: sum.splits)
  with assms(1,2) show ?thesis
    using gen_epoch_end_nan [of m rt outputs r m' lg] by simp
qed

lemma gen_epochs_nan:
  assumes "architecture (self_hparams m) = ''gen''"
    and "self_pearson_calculator m = PearsonCalculator_init"
  shows "(\<forall>r\<in>set (fst (validation_epochs rt m epochs)). map_of (result_log r) ''val_pearson'' = Some NaN)"
proof (induction epochs)
  case Nil
  show ?case by simp
next
  case (Cons bs rest)
  show ?case
  proof (cases "validation_epoch rt m bs")
    case (fields res m' lg)
    show ?thesis
    proof (cases res)
      case (Inl e)
      with fields show ?thesis by simp
    next
      case (Inr r)
      with fields assms have "map_of (result_log r) ''val_pearson'' = Some NaN" and "m' = m"
        using gen_epoch_result [of m rt bs r m' lg] by simp_all
      with fields Inr Cons.IH show ?thesis
        by (cases "validation_epochs rt m rest") auto
    qed
  qed
qed

lemma gen_model_constructed:
  "T5ASSIN_init stub_library (stub_hparams ''gen'' 1) = Inr (gen_model\<lparr>self_training := True\<rparr>)"
  by (simp add: T5ASSIN_init_def load_pretrained_def stub_library_def stub_hparams_def and_then_def
      detect_size_def split_on_def gen_model_def)

lemma gen_model_step:
  "validation_step stub_runtime gen_model stub_batch = (Inr [(''loss'', NaN)], gen_model)"
  by (simp add: validation_step_def forward_def gen_model_def stub_hparams_def stub_batch_def
      stub_runtime_def and_then_def stub_mse_def array1_def scan_words_first clamp_def decode_defs)

lemma gen_model_epoch:
  "validation_epoch stub_runtime gen_model [stub_batch, stub_batch] =
     (Inr \<lparr>result_entries = [(''val_loss'', NaN)],
           result_log = [(''val_loss'', NaN), (''val_pearson'', NaN)],
           result_progress_bar = [(''val_loss'', NaN), (''val_pearson'', NaN)]\<rparr>,
      gen_model, [not_enough_samples])"
proof -
  have steps: "validation_steps stub_runtime gen_model [stub_batch, stub_batch]
      = (Inr [[(''loss'', NaN)], [(''loss'', NaN)]], gen_model)"
    by (simp add: gen_model_step)
  have end_: "validation_epoch_end stub_runtime gen_model [[(''loss'', NaN)], [(''loss'', NaN)]] =
     (Inr \<lparr>result_entries = [(''val_loss'', NaN)],
           result_log = [(''val_loss'', NaN), (''val_pearson'', NaN)],
           result_progress_bar = [(''val_loss'', NaN), (''val_pearson'', NaN)]\<rparr>,
      gen_model, [not_enough_samples])"
    by (simp add: validation_epoch_end_def gen_model_def stub_hparams_def stub_runtime_def
        and_then_def dict_get_def calculate_pearson_def PearsonCalculator_init_def)
  show ?thesis unfolding validation_epoch_def steps by (simp add: end_)
qed

text \<open>
  Claim C10.  Take a model in \<open>gen\<close> mode whose Pearson calculator is empty, as
  \<open>__init__\<close> leaves it.  No \<open>validation_step\<close> changes the model, so none feeds the
  calculator; every \<open>validation_epoch_end\<close> that returns has called
  \<open>calculate_pearson\<close> on the empty calculator, which logged its warning, reports NaN
  as \<open>val_pearson\<close> and leaves the model as it was; and so every epoch of any run of
  validation epochs reports NaN as \<open>val_pearson\<close>.
\<close>

theorem gen_reports_nan_pearson:
  assumes "architecture (self_hparams m) = ''gen''"
    and "self_pearson_calculator m = PearsonCalculator_init"
  shows "(\<forall>b. snd (validation_step rt m b) = m) \<and>
         (\<forall>outputs r m' lg. validation_epoch_end rt m outputs = (Inr r, m', lg) \<longrightarrow>
            map_of (result_log r) ''val_pearson'' = Some NaN \<and> m' = m \<and> lg = [not_enough_samples]) \<and>
         (\<forall>epochs. \<forall>r\<in>set (fst (validation_epochs rt m epochs)).
            map_of (result_log r) ''val_pearson'' = Some NaN)"
  using assms gen_step_keeps_model [of m rt] gen_epoch_end_nan [of m rt] gen_epochs_nan [of m rt]
  by blast

theorem gen_reports_nan_pearson_witness:
  "length (fst (validation_epochs stub_runtime gen_model
       [[stub_batch, stub_batch], [stub_batch, stub_batch]])) = 2 \<and>
   list_all (\<lambda>r. map_of (result_log r) ''val_pearson'' = Some NaN)
     (fst (validation_epochs stub_runtime gen_model
       [[stub_batch, stub_batch], [stub_batch, stub_batch]]))"
proof -
  have arch: "architecture (self_hparams gen_model) = ''gen''"
    and empty: "self_pearson_calculator gen_model = PearsonCalculator_init"
    by (simp_all add: gen_model_def stub_hparams_def)
  have two: "length (fst (validation_epochs stub_runtime gen_model
       [[stub_batch, stub_batch], [stub_batch, stub_batch]])) = 2"
    by (simp add: gen_model_epoch)
  from gen_reports_nan_pearson [OF arch empty, of stub_runtime]
  have "\<forall>r\<in>set (fst (validation_epochs stub_runtime gen_model
       [[stub_batch, stub_batch], [stub_batch, stub_batch]])).
            map_of (result_log r) ''val_pearson'' = Some NaN"
    by blast
  with two show ?thesis by (simp add: list_all_iff)
qed

end
